theory Spec2Isabelle
  imports Main "HOL-Library.Sublist"
begin

section \<open>Errors\<close>

text \<open>
  Go reports failure in two ways. A function returns an \<open>error\<close> value, which the caller
  inspects; such a function has result type \<open>error + 'a\<close> here. Or the run-time system
  panics, which ends the program; an expression that can panic has result type
  \<open>panic + 'a\<close>.
\<close>

datatype error =
    External string
      \<comment> \<open>an error handed back by a collaborator (SDK call, file system, JSON decoder)\<close>
  | Errorf string
      \<comment> \<open>\<open>fmt.Errorf(msg)\<close>\<close>
  | ErrorfCount int string
      \<comment> \<open>\<open>fmt.Errorf("%d " + msg, n)\<close>\<close>
  | Wrap string error
      \<comment> \<open>\<open>fmt.Errorf(msg + ": %w", err)\<close>\<close>

datatype panic =
    SliceBounds
      \<comment> \<open>slice bounds out of range\<close>
  | NilDereference
      \<comment> \<open>invalid memory address or nil pointer dereference\<close>

section \<open>The functions of package \<open>strings\<close> that the tool calls\<close>

text \<open>
  A Go string is a sequence of bytes, and so is a HOL \<open>string\<close>. An index is an
  \<open>int\<close>, with \<open>-1\<close> for "not found".
\<close>

definition occurs_at :: "string \<Rightarrow> string \<Rightarrow> nat \<Rightarrow> bool" where
  "occurs_at substr s i \<longleftrightarrow> prefix substr (drop i s)"

definition Index :: "string \<Rightarrow> string \<Rightarrow> int" where
  "Index s substr =
     (case find (occurs_at substr s) [0..<Suc (length s)] of
        None \<Rightarrow> - 1
      | Some i \<Rightarrow> int i)"

definition LastIndex :: "string \<Rightarrow> string \<Rightarrow> int" where
  "LastIndex s substr =
     (case find (occurs_at substr s) (rev [0..<Suc (length s)]) of
        None \<Rightarrow> - 1
      | Some i \<Rightarrow> int i)"

definition TrimRight :: "string \<Rightarrow> string \<Rightarrow> string" where
  "TrimRight s cutset = rev (dropWhile (\<lambda>c. c \<in> set cutset) (rev s))"

definition slice_from :: "string \<Rightarrow> int \<Rightarrow> panic + string" where
  \<comment> \<open>the slice expression \<open>s[i:]\<close>, which panics unless \<open>0 \<le> i \<le> len(s)\<close>\<close>
  "slice_from s i =
     (if 0 \<le> i \<and> i \<le> int (length s) then Inr (drop (nat i) s) else Inl SliceBounds)"

section \<open>Scope extraction and rebuilding (restore command)\<close>

definition extractScopeSuffix :: "string \<Rightarrow> panic + string" where
  "extractScopeSuffix scope =
     (let marker = ''/service/'';
          idx = LastIndex scope marker
      in if idx = - 1 then Inr ''''
         else case slice_from scope (idx + int (length marker)) of
                Inl e \<Rightarrow> Inl e
              | Inr rest \<Rightarrow>
                  (let slashIdx = Index rest ''/''
                   in if slashIdx = - 1 then Inr ''''
                      else case slice_from rest (slashIdx + 1) of
                             Inl e \<Rightarrow> Inl e
                           | Inr sfx \<Rightarrow> Inr (TrimRight sfx ''/'')))"

definition buildScopeFromSuffix :: "string \<Rightarrow> string \<Rightarrow> string \<Rightarrow> string \<Rightarrow> string" where
  "buildScopeFromSuffix azureSubscriptionID resourceGroup apimName sfx =
     (let base = ''/subscriptions/'' @ azureSubscriptionID @ ''/resourceGroups/'' @ resourceGroup
                 @ ''/providers/Microsoft.ApiManagement/service/'' @ apimName
      in if sfx = '''' then base else base @ ''/'' @ sfx)"

text \<open>The earlier restore variant, which only knows product scopes.\<close>

definition extractProductID :: "string \<Rightarrow> panic + string" where
  "extractProductID scope =
     (let marker = ''/products/'';
          idx = LastIndex scope marker
      in if idx = - 1 then Inr ''''
         else slice_from scope (idx + int (length marker)))"

definition buildScope :: "string \<Rightarrow> string \<Rightarrow> string \<Rightarrow> string \<Rightarrow> string" where
  "buildScope azureSubscriptionID resourceGroup apimName productID =
     ''/subscriptions/'' @ azureSubscriptionID @ ''/resourceGroups/'' @ resourceGroup
     @ ''/providers/Microsoft.ApiManagement/service/'' @ apimName @ ''/products/'' @ productID"

text \<open>
  The specification words the extraction slightly differently: after the instance name
  it takes everything behind the next slash and strips \<^emph>\<open>one\<close> trailing slash. That
  reading is written down here, next to the source's function, to compare the two.
\<close>

definition TrimSuffix :: "string \<Rightarrow> string \<Rightarrow> string" where
  "TrimSuffix s sfx = (if suffix sfx s then take (length s - length sfx) s else s)"

definition ExtractSuffix_spec :: "string \<Rightarrow> string" where
  "ExtractSuffix_spec scope =
     (let idx = LastIndex scope ''/service/''
      in if idx = - 1 then ''''
         else case dropWhile (\<lambda>c. c \<noteq> CHR ''/'') (drop (nat idx + length ''/service/'') scope) of
                [] \<Rightarrow> ''''
              | slash # everything \<Rightarrow> TrimSuffix everything ''/'')"

section \<open>Credential records\<close>

text \<open>
  \<open>SubscriptionInfo\<close> is the record that is persisted in a snapshot file. Absent optional
  fields are empty strings, as in the Go struct.
\<close>

record SubscriptionInfoProperties =
  OwnerID :: string
  Scope :: string
  DisplayName :: string
  State :: string
  CreatedDate :: string
  StartDate :: string
  EndDate :: string
  ExpirationDate :: string
  NotificationDate :: string
  PrimaryKey :: string
  SecondaryKey :: string
  StateComment :: string
  AllowTracing :: bool

record SubscriptionInfo =
  ID :: string
  Name :: string
  Type :: string
  Properties :: SubscriptionInfoProperties

section \<open>The compare command\<close>

text \<open>
  The file system and the JSON decoder are collaborators: what they return is a parameter
  of the model.
\<close>

record host =
  os_ReadFile :: "string \<Rightarrow> error + string"
  json_Unmarshal :: "string \<Rightarrow> error + SubscriptionInfo list"

text \<open>What the command prints, one value per \<open>Printf\<close> call.\<close>

datatype line =
    Comparing_backup_files
  | File_A string
  | File_B string
  | Count_A int
  | Count_B int
  | OK string
  | DIFF string
  | MISS string string
  | Differs string string string
  | Differs_bool string bool bool
  | Comparison_complete int int int int

definition loadBackupFile :: "host \<Rightarrow> string \<Rightarrow> error + SubscriptionInfo list" where
  "loadBackupFile h filePath =
     (case os_ReadFile h filePath of
        Inl err \<Rightarrow> Inl err
      | Inr data \<Rightarrow>
          (case json_Unmarshal h data of
             Inl err \<Rightarrow> Inl err
           | Inr subs \<Rightarrow> Inr subs))"

fun filterOutMaster :: "SubscriptionInfo list \<Rightarrow> SubscriptionInfo list" where
  "filterOutMaster [] = []"
| "filterOutMaster (sub # subs) =
     (if Name sub \<noteq> ''master'' then sub # filterOutMaster subs else filterOutMaster subs)"

definition attributesEqual :: "SubscriptionInfo \<Rightarrow> SubscriptionInfo \<Rightarrow> bool" where
  "attributesEqual subA subB =
     (let propsA = Properties subA; propsB = Properties subB
      in DisplayName propsA = DisplayName propsB \<and>
         Scope propsA = Scope propsB \<and>
         State propsA = State propsB \<and>
         OwnerID propsA = OwnerID propsB \<and>
         PrimaryKey propsA = PrimaryKey propsB \<and>
         SecondaryKey propsA = SecondaryKey propsB \<and>
         AllowTracing propsA = AllowTracing propsB \<and>
         StartDate propsA = StartDate propsB \<and>
         EndDate propsA = EndDate propsB \<and>
         ExpirationDate propsA = ExpirationDate propsB \<and>
         NotificationDate propsA = NotificationDate propsB \<and>
         StateComment propsA = StateComment propsB)"

definition printAttributeDifferences :: "SubscriptionInfo \<Rightarrow> SubscriptionInfo \<Rightarrow> line list" where
  "printAttributeDifferences subA subB =
     (let propsA = Properties subA; propsB = Properties subB
      in (if DisplayName propsA \<noteq> DisplayName propsB
          then [Differs ''displayName'' (DisplayName propsA) (DisplayName propsB)] else [])
       @ (if Scope propsA \<noteq> Scope propsB
          then [Differs ''scope'' (Scope propsA) (Scope propsB)] else [])
       @ (if State propsA \<noteq> State propsB
          then [Differs ''state'' (State propsA) (State propsB)] else [])
       @ (if OwnerID propsA \<noteq> OwnerID propsB
          then [Differs ''ownerId'' (OwnerID propsA) (OwnerID propsB)] else [])
       @ (if AllowTracing propsA \<noteq> AllowTracing propsB
          then [Differs_bool ''allowTracing'' (AllowTracing propsA) (AllowTracing propsB)] else [])
       @ (if CreatedDate propsA \<noteq> CreatedDate propsB
          then [Differs ''createdDate'' (CreatedDate propsA) (CreatedDate propsB)] else [])
       @ (if StartDate propsA \<noteq> StartDate propsB
          then [Differs ''startDate'' (StartDate propsA) (StartDate propsB)] else [])
       @ (if EndDate propsA \<noteq> EndDate propsB
          then [Differs ''endDate'' (EndDate propsA) (EndDate propsB)] else [])
       @ (if ExpirationDate propsA \<noteq> ExpirationDate propsB
          then [Differs ''expirationDate'' (ExpirationDate propsA) (ExpirationDate propsB)] else [])
       @ (if NotificationDate propsA \<noteq> NotificationDate propsB
          then [Differs ''notificationDate'' (NotificationDate propsA) (NotificationDate propsB)] else [])
       @ (if StateComment propsA \<noteq> StateComment propsB
          then [Differs ''stateComment'' (StateComment propsA) (StateComment propsB)] else []))"

text \<open>
  The state of the comparison loop: the three counters and what has been printed so far.
  The counters are Go \<open>int\<close>s that count records of a slice, so they cannot overflow.
\<close>

record compare_state =
  printed :: "line list"
  matched :: int
  missing :: int
  mismatch :: int

text \<open>
  The inner loop over \<open>subsB\<close>: it stops at the first record with the same two keys and
  returns \<open>found\<close>.
\<close>

fun runCompare_inner ::
  "SubscriptionInfo \<Rightarrow> SubscriptionInfo list \<Rightarrow> compare_state \<Rightarrow> bool \<times> compare_state" where
  "runCompare_inner subA [] st = (False, st)"
| "runCompare_inner subA (subB # subsB) st =
     (if PrimaryKey (Properties subA) = PrimaryKey (Properties subB) \<and>
         SecondaryKey (Properties subA) = SecondaryKey (Properties subB)
      then (True,
            if attributesEqual subA subB
            then st\<lparr>printed := printed st @ [OK (DisplayName (Properties subA))],
                    matched := matched st + 1\<rparr>
            else st\<lparr>printed := printed st @ [DIFF (DisplayName (Properties subA))]
                                   @ printAttributeDifferences subA subB,
                    mismatch := mismatch st + 1\<rparr>)
      else runCompare_inner subA subsB st)"

fun runCompare_loop ::
  "SubscriptionInfo list \<Rightarrow> SubscriptionInfo list \<Rightarrow> compare_state \<Rightarrow> compare_state" where
  "runCompare_loop [] subsB st = st"
| "runCompare_loop (subA # subsA) subsB st =
     (case runCompare_inner subA subsB st of
        (found, st') \<Rightarrow>
          runCompare_loop subsA subsB
            (if \<not> found
             then st'\<lparr>printed := printed st' @ [MISS (DisplayName (Properties subA))
                                                      (PrimaryKey (Properties subA))],
                      missing := missing st' + 1\<rparr>
             else st'))"

text \<open>The command from the point where both file names are known.\<close>

definition runCompare_files :: "host \<Rightarrow> string \<Rightarrow> string \<Rightarrow> line list \<times> error option" where
  "runCompare_files h fileA fileB =
     (let out0 = [Comparing_backup_files, File_A fileA, File_B fileB]
      in case loadBackupFile h fileA of
           Inl err \<Rightarrow> (out0, Some (Wrap ''failed to load file A'' err))
         | Inr loadedA \<Rightarrow>
             (case loadBackupFile h fileB of
                Inl err \<Rightarrow> (out0, Some (Wrap ''failed to load file B'' err))
              | Inr loadedB \<Rightarrow>
                  (let subsA = filterOutMaster loadedA;
                       subsB = filterOutMaster loadedB;
                       out1 = out0 @ [Count_A (int (length subsA)), Count_B (int (length subsB))];
                       st = runCompare_loop subsA subsB
                              \<lparr>printed = out1, matched = 0, missing = 0, mismatch = 0\<rparr>;
                       out2 = printed st @ [Comparison_complete (matched st) (mismatch st)
                                              (missing st) (int (length subsA))]
                   in if missing st > 0 \<or> mismatch st > 0
                      then (out2, Some (ErrorfCount (missing st + mismatch st)
                                          ''key(s) missing or attributes differ''))
                      else (out2, None))))"

definition runCompare :: "host \<Rightarrow> string \<Rightarrow> string \<Rightarrow> string list \<Rightarrow> line list \<times> error option" where
  "runCompare h compareFileA compareFileB args =
     (if length args = 2 then runCompare_files h (args ! 0) (args ! 1)
      else if length args = 1 then ([], Some (Errorf ''expected 2 files, got 1''))
      else if compareFileA = '''' \<or> compareFileB = ''''
      then ([], Some (Errorf ''must provide either two positional arguments or both -a and -b flags''))
      else runCompare_files h compareFileA compareFileB)"

text \<open>
  The vocabulary of the comparison report. A record of A is classified against the first
  record of B, in snapshot order, that has the same two keys.
\<close>

datatype outcome = Matched | Mismatched | Missing

definition same_keys :: "SubscriptionInfo \<Rightarrow> SubscriptionInfo \<Rightarrow> bool" where
  "same_keys subA subB \<longleftrightarrow>
     PrimaryKey (Properties subA) = PrimaryKey (Properties subB) \<and>
     SecondaryKey (Properties subA) = SecondaryKey (Properties subB)"

definition classify :: "SubscriptionInfo \<Rightarrow> SubscriptionInfo list \<Rightarrow> outcome" where
  "classify subA subsB =
     (case find (same_keys subA) subsB of
        None \<Rightarrow> Missing
      | Some subB \<Rightarrow> if attributesEqual subA subB then Matched else Mismatched)"

definition report :: "SubscriptionInfo \<Rightarrow> SubscriptionInfo list \<Rightarrow> line list" where
  "report subA subsB =
     (case find (same_keys subA) subsB of
        None \<Rightarrow> [MISS (DisplayName (Properties subA)) (PrimaryKey (Properties subA))]
      | Some subB \<Rightarrow>
          if attributesEqual subA subB then [OK (DisplayName (Properties subA))]
          else DIFF (DisplayName (Properties subA)) # printAttributeDifferences subA subB)"

definition tally :: "outcome \<Rightarrow> SubscriptionInfo list \<Rightarrow> SubscriptionInfo list \<Rightarrow> int" where
  \<comment> \<open>how many records of A have the given outcome against B\<close>
  "tally oc subsA subsB = int (length (filter (\<lambda>subA. classify subA subsB = oc) subsA))"

section \<open>Example inputs\<close>

text \<open>Concrete records and collaborators, used to run the model on explicit inputs.\<close>

definition example_record :: "string \<Rightarrow> string \<Rightarrow> string \<Rightarrow> string \<Rightarrow> SubscriptionInfo" where
  "example_record name displayName primaryKey secondaryKey =
     \<lparr>ID = ''/service/i/subscriptions/'' @ name,
      Name = name,
      Type = ''Microsoft.ApiManagement/service/subscriptions'',
      Properties =
        \<lparr>OwnerID = '''',
         Scope = ''/subscriptions/s/resourceGroups/g/providers/Microsoft.ApiManagement/service/i/products/p1'',
         DisplayName = displayName,
         State = ''active'',
         CreatedDate = ''2024-01-01T00:00:00Z'',
         StartDate = '''',
         EndDate = '''',
         ExpirationDate = '''',
         NotificationDate = '''',
         PrimaryKey = primaryKey,
         SecondaryKey = secondaryKey,
         StateComment = '''',
         AllowTracing = False\<rparr>\<rparr>"

definition example_host :: "SubscriptionInfo list \<Rightarrow> SubscriptionInfo list \<Rightarrow> host" where
  \<comment> \<open>two readable files, \<open>a.json\<close> and \<open>b.json\<close>, which decode to the two given snapshots\<close>
  "example_host snapA snapB =
     \<lparr>os_ReadFile = (\<lambda>path. if path = ''a.json'' \<or> path = ''b.json'' then Inr path
                            else Inl (External ''no such file'')),
      json_Unmarshal = (\<lambda>data. if data = ''a.json'' then Inr snapA else Inr snapB)\<rparr>"


section \<open>The remote service\<close>

text \<open>
  The Azure SDK is a collaborator. Its wire types are modelled as the code reads them:
  every pointer field is an \<open>option\<close>, with \<open>None\<close> for \<open>nil\<close>. A timestamp is an
  instant of type \<open>time\<close>, and \<open>time.Time.Format\<close> with the layout the code uses is a
  parameter.
\<close>

type_synonym time = int

record SubscriptionContractProperties =
  p_OwnerID :: "string option"
  p_Scope :: "string option"
  p_DisplayName :: "string option"
  p_State :: "string option"
  p_StateComment :: "string option"
  p_AllowTracing :: "bool option"
  p_CreatedDate :: "time option"
  p_StartDate :: "time option"
  p_EndDate :: "time option"
  p_ExpirationDate :: "time option"
  p_NotificationDate :: "time option"

record SubscriptionContract =
  c_ID :: "string option"
  c_Name :: "string option"
  c_Type :: "string option"
  c_Properties :: "SubscriptionContractProperties option"

record SubscriptionKeysContract =
  k_PrimaryKey :: "string option"
  k_SecondaryKey :: "string option"

record SubscriptionCreateParameterProperties =
  cp_Scope :: "string option"
  cp_DisplayName :: "string option"
  cp_PrimaryKey :: "string option"
  cp_SecondaryKey :: "string option"
  cp_OwnerID :: "string option"
  cp_AllowTracing :: "bool option"
  cp_State :: "string option"

text \<open>
  The service has a state of some type \<open>'r\<close>, which every call may read and change. A
  pager is the finite sequence of results that its \<open>NextPage\<close> gives until \<open>More\<close> is
  false; it is fixed when the pager is made.
\<close>

record 'r sdk =
  resolveSubscriptionID :: "error + string"
  NewAzureCLICredential :: "error option"
  NewClientFactory :: "string \<Rightarrow> error option"
  Subscription_pages :: "string \<Rightarrow> string \<Rightarrow> 'r \<Rightarrow> (error + SubscriptionContract option list) list"
  ProductSubscriptions_pages ::
    "string \<Rightarrow> string \<Rightarrow> string \<Rightarrow> 'r \<Rightarrow> (error + SubscriptionContract option list) list"
  ListSecrets :: "string \<Rightarrow> string \<Rightarrow> string \<Rightarrow> 'r \<Rightarrow> (error + SubscriptionKeysContract) \<times> 'r"
  CreateOrUpdate ::
    "string \<Rightarrow> string \<Rightarrow> string \<Rightarrow> SubscriptionCreateParameterProperties \<Rightarrow> 'r
      \<Rightarrow> (error + SubscriptionContract) \<times> 'r"
  Delete :: "string \<Rightarrow> string \<Rightarrow> string \<Rightarrow> 'r \<Rightarrow> error option \<times> 'r"
  Format :: "time \<Rightarrow> string"

text \<open>
  Every call that a command issues to the service or to the file system is appended to a
  trace, so that a theorem can say which calls were made.
\<close>

datatype call =
    Call_ListSecrets string string string
  | Call_CreateOrUpdate string string string SubscriptionCreateParameterProperties
  | Call_Delete string string string
  | Call_MkdirAll string
  | Call_WriteFile string string

record 'r world =
  remote :: 'r
  trace :: "call list"

record Client =
  subscriptionID :: string
  resourceGroup :: string
  apimName :: string

definition NewClient :: "'r sdk \<Rightarrow> string \<Rightarrow> string \<Rightarrow> string \<Rightarrow> error + Client" where
  "NewClient sdk subscriptionID' resourceGroup' apimName' =
     (case (if subscriptionID' = ''''
            then (case resolveSubscriptionID sdk of
                    Inl err \<Rightarrow> Inl (Wrap ''no subscription ID provided and failed to resolve from Azure CLI'' err)
                  | Inr resolved \<Rightarrow> Inr resolved)
            else Inr subscriptionID') of
        Inl err \<Rightarrow> Inl err
      | Inr sid \<Rightarrow>
          (case NewAzureCLICredential sdk of
             Some err \<Rightarrow> Inl (Wrap ''failed to authenticate with Azure CLI'' err)
           | None \<Rightarrow>
               (case NewClientFactory sdk sid of
                  Some err \<Rightarrow> Inl (Wrap ''failed to create Azure API Management client factory'' err)
                | None \<Rightarrow>
                    Inr \<lparr>subscriptionID = sid, resourceGroup = resourceGroup',
                         apimName = apimName'\<rparr>)))"

definition SubscriptionID :: "Client \<Rightarrow> string" where
  "SubscriptionID c = subscriptionID c"

definition deref :: "string option \<Rightarrow> string" where
  "deref s = (case s of None \<Rightarrow> '''' | Some v \<Rightarrow> v)"

definition format_date :: "'r sdk \<Rightarrow> time option \<Rightarrow> string" where
  \<comment> \<open>\<open>if t != nil { field = t.Format("2006-01-02T15:04:05Z") }\<close> on a field that is still empty\<close>
  "format_date sdk t = (case t of None \<Rightarrow> '''' | Some v \<Rightarrow> Format sdk v)"

section \<open>Listing, creating and deleting subscriptions\<close>

text \<open>
  A call of the client returns \<open>Inl p\<close> when it panics, \<open>Inr (Inl err)\<close> when it returns
  an error and \<open>Inr (Inr v)\<close> when it returns a value.
\<close>

definition project :: "'r sdk \<Rightarrow> SubscriptionContract \<Rightarrow> SubscriptionContractProperties \<Rightarrow> string
    \<Rightarrow> SubscriptionInfo" where
  \<comment> \<open>the \<open>SubscriptionInfo\<close> that \<open>ListSubscriptions\<close> builds before it fetches the secrets\<close>
  "project sdk sub props state =
     \<lparr>ID = deref (c_ID sub),
      Name = deref (c_Name sub),
      Type = deref (c_Type sub),
      Properties =
        \<lparr>OwnerID = deref (p_OwnerID props),
         Scope = deref (p_Scope props),
         DisplayName = deref (p_DisplayName props),
         State = state,
         CreatedDate = format_date sdk (p_CreatedDate props),
         StartDate = format_date sdk (p_StartDate props),
         EndDate = format_date sdk (p_EndDate props),
         ExpirationDate = format_date sdk (p_ExpirationDate props),
         NotificationDate = format_date sdk (p_NotificationDate props),
         PrimaryKey = '''',
         SecondaryKey = '''',
         StateComment = deref (p_StateComment props),
         AllowTracing = (case p_AllowTracing props of None \<Rightarrow> False | Some b \<Rightarrow> b)\<rparr>\<rparr>"

definition with_keys :: "SubscriptionKeysContract \<Rightarrow> SubscriptionInfo \<Rightarrow> SubscriptionInfo" where
  "with_keys secrets info =
     info\<lparr>Properties := (Properties info)
            \<lparr>PrimaryKey := deref (k_PrimaryKey secrets),
             SecondaryKey := deref (k_SecondaryKey secrets)\<rparr>\<rparr>"

text \<open>The loop over the records of one page.\<close>

fun ListSubscriptions_page ::
  "'r sdk \<Rightarrow> Client \<Rightarrow> SubscriptionContract option list \<Rightarrow> SubscriptionInfo list \<Rightarrow> 'r world
    \<Rightarrow> (panic + error + SubscriptionInfo list) \<times> 'r world" where
  "ListSubscriptions_page sdk c [] results w = (Inr (Inr results), w)"
| "ListSubscriptions_page sdk c (None # subs) results w =
     ListSubscriptions_page sdk c subs results w"
| "ListSubscriptions_page sdk c (Some sub # subs) results w =
     (case c_Properties sub of
        None \<Rightarrow> ListSubscriptions_page sdk c subs results w
      | Some props \<Rightarrow>
          (case p_State props of
             None \<Rightarrow> (Inl NilDereference, w)
           | Some state \<Rightarrow>
               (case ListSecrets sdk (resourceGroup c) (apimName c) (deref (c_Name sub)) (remote w) of
                  (answer, r') \<Rightarrow>
                    (let w' = \<lparr>remote = r',
                               trace = trace w @ [Call_ListSecrets (resourceGroup c) (apimName c)
                                                    (deref (c_Name sub))]\<rparr>
                     in case answer of
                          Inl err \<Rightarrow>
                            (Inr (Inl (Wrap (''failed to get secrets for subscription ''
                                             @ deref (c_Name sub)) err)), w')
                        | Inr secrets \<Rightarrow>
                            ListSubscriptions_page sdk c subs
                              (results @ [with_keys secrets (project sdk sub props state)]) w'))))"

text \<open>The loop over the pages.\<close>

fun ListSubscriptions_pages ::
  "'r sdk \<Rightarrow> Client \<Rightarrow> (error + SubscriptionContract option list) list \<Rightarrow> SubscriptionInfo list
    \<Rightarrow> 'r world \<Rightarrow> (panic + error + SubscriptionInfo list) \<times> 'r world" where
  "ListSubscriptions_pages sdk c [] results w = (Inr (Inr results), w)"
| "ListSubscriptions_pages sdk c (Inl err # pages) results w =
     (Inr (Inl (Wrap ''failed to list subscriptions'' err)), w)"
| "ListSubscriptions_pages sdk c (Inr v # pages) results w =
     (case ListSubscriptions_page sdk c v results w of
        (Inr (Inr results'), w') \<Rightarrow> ListSubscriptions_pages sdk c pages results' w'
      | (stopped, w') \<Rightarrow> (stopped, w'))"

definition pager :: "'r sdk \<Rightarrow> Client \<Rightarrow> string \<Rightarrow> 'r
    \<Rightarrow> (error + SubscriptionContract option list) list" where
  "pager sdk c productID r =
     (if productID \<noteq> ''''
      then ProductSubscriptions_pages sdk (resourceGroup c) (apimName c) productID r
      else Subscription_pages sdk (resourceGroup c) (apimName c) r)"

definition ListSubscriptions ::
  "'r sdk \<Rightarrow> Client \<Rightarrow> string \<Rightarrow> 'r world \<Rightarrow> (panic + error + SubscriptionInfo list) \<times> 'r world" where
  "ListSubscriptions sdk c productID w =
     ListSubscriptions_pages sdk c (pager sdk c productID (remote w)) [] w"

record CreateSubscriptionOptions =
  opt_PrimaryKey :: string
  opt_SecondaryKey :: string
  opt_State :: string
  opt_OwnerID :: string
  opt_AllowTracing :: "bool option"

definition nonempty :: "string \<Rightarrow> string option" where
  \<comment> \<open>\<open>if s != "" { field = &s }\<close> on a field that is still \<open>nil\<close>\<close>
  "nonempty s = (if s \<noteq> '''' then Some s else None)"

definition CreateSubscription ::
  "'r sdk \<Rightarrow> Client \<Rightarrow> string \<Rightarrow> string \<Rightarrow> string \<Rightarrow> CreateSubscriptionOptions option \<Rightarrow> 'r world
    \<Rightarrow> (panic + error + SubscriptionInfo) \<times> 'r world" where
  "CreateSubscription sdk c sid scope displayName opts' w =
     (let opts = (case opts' of
                    None \<Rightarrow> \<lparr>opt_PrimaryKey = '''', opt_SecondaryKey = '''', opt_State = '''',
                              opt_OwnerID = '''', opt_AllowTracing = None\<rparr>
                  | Some given \<Rightarrow> given);
          params = \<lparr>cp_Scope = Some scope,
                    cp_DisplayName = Some displayName,
                    cp_PrimaryKey = nonempty (opt_PrimaryKey opts),
                    cp_SecondaryKey = nonempty (opt_SecondaryKey opts),
                    cp_OwnerID = nonempty (opt_OwnerID opts),
                    cp_AllowTracing = opt_AllowTracing opts,
                    cp_State = nonempty (opt_State opts)\<rparr>
      in case CreateOrUpdate sdk (resourceGroup c) (apimName c) sid params (remote w) of
           (resp, r1) \<Rightarrow>
             (let w1 = \<lparr>remote = r1,
                        trace = trace w @ [Call_CreateOrUpdate (resourceGroup c) (apimName c) sid params]\<rparr>
              in case resp of
                   Inl err \<Rightarrow> (Inr (Inl (Wrap (''failed to create subscription '' @ sid) err)), w1)
                 | Inr sub \<Rightarrow>
                     (case c_Properties sub of
                        None \<Rightarrow> (Inl NilDereference, w1)
                      | Some props \<Rightarrow>
                          (case p_State props of
                             None \<Rightarrow> (Inl NilDereference, w1)
                           | Some state \<Rightarrow>
                               (let info =
                                      \<lparr>ID = deref (c_ID sub),
                                       Name = deref (c_Name sub),
                                       Type = deref (c_Type sub),
                                       Properties =
                                         \<lparr>OwnerID = deref (p_OwnerID props),
                                          Scope = deref (p_Scope props),
                                          DisplayName = deref (p_DisplayName props),
                                          State = state,
                                          CreatedDate = format_date sdk (p_CreatedDate props),
                                          StartDate = format_date sdk (p_StartDate props),
                                          EndDate = '''',
                                          ExpirationDate = '''',
                                          NotificationDate = '''',
                                          PrimaryKey = '''',
                                          SecondaryKey = '''',
                                          StateComment = '''',
                                          AllowTracing = (case p_AllowTracing props of
                                                            None \<Rightarrow> False | Some b \<Rightarrow> b)\<rparr>\<rparr>
                                in case ListSecrets sdk (resourceGroup c) (apimName c) sid (remote w1) of
                                     (answer, r2) \<Rightarrow>
                                       (let w2 = \<lparr>remote = r2,
                                                  trace = trace w1 @ [Call_ListSecrets (resourceGroup c)
                                                                        (apimName c) sid]\<rparr>
                                        in case answer of
                                             Inl err \<Rightarrow>
                                               (Inr (Inl (Wrap (''failed to get secrets for subscription ''
                                                                @ sid) err)), w2)
                                           | Inr secrets \<Rightarrow>
                                               (Inr (Inr (with_keys secrets info)), w2)))))))"

definition DeleteSubscription :: "'r sdk \<Rightarrow> Client \<Rightarrow> string \<Rightarrow> 'r world \<Rightarrow> error option \<times> 'r world" where
  "DeleteSubscription sdk c sid w =
     (case Delete sdk (resourceGroup c) (apimName c) sid (remote w) of
        (answer, r') \<Rightarrow>
          (let w' = \<lparr>remote = r', trace = trace w @ [Call_Delete (resourceGroup c) (apimName c) sid]\<rparr>
           in case answer of
                Some err \<Rightarrow> (Some (Wrap (''failed to delete subscription '' @ sid) err), w')
              | None \<Rightarrow> (None, w')))"

section \<open>The delete command\<close>

text \<open>
  The package-level flag variables of each command are the fields of a record. What a
  command prints is left out, except for the counters of its closing summary line, which
  are returned with the \<open>error\<close> result: \<open>None\<close> for the counters means that the command
  returned before the summary.
\<close>

record delete_flags =
  deleteResourceGroup :: string
  deleteAPIMName :: string
  deleteSubscription :: string
  deleteProductID :: string
  deleteDryRun :: bool
  deleteAll :: bool

record delete_tally =
  deleted :: int
  skipped :: int
  delete_failed :: int

fun runDelete_loop ::
  "'r sdk \<Rightarrow> delete_flags \<Rightarrow> Client \<Rightarrow> SubscriptionInfo list \<Rightarrow> delete_tally \<Rightarrow> 'r world
    \<Rightarrow> delete_tally \<times> 'r world" where
  "runDelete_loop sdk fl client [] t w = (t, w)"
| "runDelete_loop sdk fl client (sub # subs) t w =
     (let sid = Name sub
      in if \<not> deleteAll fl \<and> sid = ''master''
         then runDelete_loop sdk fl client subs (t\<lparr>skipped := skipped t + 1\<rparr>) w
         else if deleteDryRun fl
         then runDelete_loop sdk fl client subs (t\<lparr>deleted := deleted t + 1\<rparr>) w
         else case DeleteSubscription sdk client sid w of
                (Some err, w') \<Rightarrow>
                  runDelete_loop sdk fl client subs (t\<lparr>delete_failed := delete_failed t + 1\<rparr>) w'
              | (None, w') \<Rightarrow>
                  runDelete_loop sdk fl client subs (t\<lparr>deleted := deleted t + 1\<rparr>) w')"

definition runDelete ::
  "'r sdk \<Rightarrow> delete_flags \<Rightarrow> 'r world
    \<Rightarrow> (panic + delete_tally option \<times> error option) \<times> 'r world" where
  "runDelete sdk fl w =
     (case NewClient sdk (deleteSubscription fl) (deleteResourceGroup fl) (deleteAPIMName fl) of
        Inl err \<Rightarrow> (Inr (None, Some (Wrap ''authentication failed'' err)), w)
      | Inr client \<Rightarrow>
          (case ListSubscriptions sdk client (deleteProductID fl) w of
             (Inl p, w') \<Rightarrow> (Inl p, w')
           | (Inr (Inl err), w') \<Rightarrow> (Inr (None, Some (Wrap ''failed to list subscriptions'' err)), w')
           | (Inr (Inr subs), w') \<Rightarrow>
               if length subs = 0 then (Inr (None, None), w')
               else (case runDelete_loop sdk fl client subs
                            \<lparr>deleted = 0, skipped = 0, delete_failed = 0\<rparr> w' of
                       (t, w'') \<Rightarrow>
                         (Inr (Some t,
                               if delete_failed t > 0
                               then Some (ErrorfCount (delete_failed t) ''subscription(s) failed to delete'')
                               else None),
                          w''))))"

section \<open>The restore command\<close>

record restore_flags =
  restoreResourceGroup :: string
  restoreAPIMName :: string
  restoreSubscription :: string
  restoreInput :: string
  restoreDryRun :: bool

record restore_tally =
  restored :: int
  restore_failed :: int

definition restore_options :: "SubscriptionInfo \<Rightarrow> CreateSubscriptionOptions" where
  \<comment> \<open>the \<open>opts\<close> that both variants of the loop build for a record\<close>
  "restore_options sub =
     \<lparr>opt_PrimaryKey = PrimaryKey (Properties sub),
      opt_SecondaryKey = SecondaryKey (Properties sub),
      opt_State = State (Properties sub),
      opt_OwnerID = (if OwnerID (Properties sub) \<noteq> '''' then OwnerID (Properties sub) else ''''),
      opt_AllowTracing = Some (AllowTracing (Properties sub))\<rparr>"

text \<open>
  The loop of the variant that rebuilds any suffix. A panic ends the run, an error of
  \<open>CreateSubscription\<close> is counted.
\<close>

fun runRestore_loop ::
  "'r sdk \<Rightarrow> restore_flags \<Rightarrow> Client \<Rightarrow> string \<Rightarrow> SubscriptionInfo list \<Rightarrow> restore_tally
    \<Rightarrow> 'r world \<Rightarrow> (panic + restore_tally) \<times> 'r world" where
  "runRestore_loop sdk fl client azureSubID [] t w = (Inr t, w)"
| "runRestore_loop sdk fl client azureSubID (sub # subs) t w =
     (let sid = Name sub;
          displayName = DisplayName (Properties sub)
      in case extractScopeSuffix (Scope (Properties sub)) of
           Inl p \<Rightarrow> (Inl p, w)
         | Inr scopeSuffix \<Rightarrow>
             (let scope = buildScopeFromSuffix azureSubID (restoreResourceGroup fl)
                            (restoreAPIMName fl) scopeSuffix;
                  opts = restore_options sub
              in if restoreDryRun fl
                 then runRestore_loop sdk fl client azureSubID subs (t\<lparr>restored := restored t + 1\<rparr>) w
                 else case CreateSubscription sdk client sid scope displayName (Some opts) w of
                        (Inl p, w') \<Rightarrow> (Inl p, w')
                      | (Inr (Inl err), w') \<Rightarrow>
                          runRestore_loop sdk fl client azureSubID subs
                            (t\<lparr>restore_failed := restore_failed t + 1\<rparr>) w'
                      | (Inr (Inr info), w') \<Rightarrow>
                          runRestore_loop sdk fl client azureSubID subs
                            (t\<lparr>restored := restored t + 1\<rparr>) w'))"

text \<open>The loop of the variant that requires a product id.\<close>

fun runRestore_product_loop ::
  "'r sdk \<Rightarrow> restore_flags \<Rightarrow> Client \<Rightarrow> string \<Rightarrow> SubscriptionInfo list \<Rightarrow> restore_tally
    \<Rightarrow> 'r world \<Rightarrow> (panic + restore_tally) \<times> 'r world" where
  "runRestore_product_loop sdk fl client azureSubID [] t w = (Inr t, w)"
| "runRestore_product_loop sdk fl client azureSubID (sub # subs) t w =
     (let sid = Name sub;
          displayName = DisplayName (Properties sub)
      in case extractProductID (Scope (Properties sub)) of
           Inl p \<Rightarrow> (Inl p, w)
         | Inr productID \<Rightarrow>
             if productID = ''''
             then runRestore_product_loop sdk fl client azureSubID subs
                    (t\<lparr>restore_failed := restore_failed t + 1\<rparr>) w
             else (let scope = buildScope azureSubID (restoreResourceGroup fl)
                                 (restoreAPIMName fl) productID;
                       opts = restore_options sub
                   in if restoreDryRun fl
                      then runRestore_product_loop sdk fl client azureSubID subs
                             (t\<lparr>restored := restored t + 1\<rparr>) w
                      else case CreateSubscription sdk client sid scope displayName (Some opts) w of
                             (Inl p, w') \<Rightarrow> (Inl p, w')
                           | (Inr (Inl err), w') \<Rightarrow>
                               runRestore_product_loop sdk fl client azureSubID subs
                                 (t\<lparr>restore_failed := restore_failed t + 1\<rparr>) w'
                           | (Inr (Inr info), w') \<Rightarrow>
                               runRestore_product_loop sdk fl client azureSubID subs
                                 (t\<lparr>restored := restored t + 1\<rparr>) w'))"

text \<open>
  Both variants share everything around the loop, so the command takes its loop as an
  argument.
\<close>

definition runRestore_with ::
  "(restore_flags \<Rightarrow> Client \<Rightarrow> string \<Rightarrow> SubscriptionInfo list \<Rightarrow> restore_tally \<Rightarrow> 'r world
      \<Rightarrow> (panic + restore_tally) \<times> 'r world)
    \<Rightarrow> 'r sdk \<Rightarrow> host \<Rightarrow> restore_flags \<Rightarrow> 'r world
    \<Rightarrow> (panic + restore_tally option \<times> error option) \<times> 'r world" where
  "runRestore_with loop sdk h fl w =
     (case os_ReadFile h (restoreInput fl) of
        Inl err \<Rightarrow> (Inr (None, Some (Wrap (''failed to read input file '' @ restoreInput fl) err)), w)
      | Inr data \<Rightarrow>
          (case json_Unmarshal h data of
             Inl err \<Rightarrow> (Inr (None, Some (Wrap ''failed to parse input file'' err)), w)
           | Inr subs \<Rightarrow>
               if length subs = 0 then (Inr (None, None), w)
               else (case NewClient sdk (restoreSubscription fl) (restoreResourceGroup fl)
                            (restoreAPIMName fl) of
                       Inl err \<Rightarrow> (Inr (None, Some (Wrap ''authentication failed'' err)), w)
                     | Inr client \<Rightarrow>
                         (case loop fl client (SubscriptionID client) subs
                                 \<lparr>restored = 0, restore_failed = 0\<rparr> w of
                            (Inl p, w') \<Rightarrow> (Inl p, w')
                          | (Inr t, w') \<Rightarrow>
                              (Inr (Some t,
                                    if restore_failed t > 0
                                    then Some (ErrorfCount (restore_failed t)
                                                 ''subscription(s) failed to restore'')
                                    else None),
                               w')))))"

definition runRestore ::
  "'r sdk \<Rightarrow> host \<Rightarrow> restore_flags \<Rightarrow> 'r world
    \<Rightarrow> (panic + restore_tally option \<times> error option) \<times> 'r world" where
  "runRestore sdk = runRestore_with (runRestore_loop sdk) sdk"

definition runRestore_product ::
  "'r sdk \<Rightarrow> host \<Rightarrow> restore_flags \<Rightarrow> 'r world
    \<Rightarrow> (panic + restore_tally option \<times> error option) \<times> 'r world" where
  "runRestore_product sdk = runRestore_with (runRestore_product_loop sdk) sdk"

section \<open>The backup command\<close>

text \<open>
  Path handling, the file system and the JSON encoder are collaborators. A slice that is
  \<open>nil\<close> and a slice of length 0 are both the empty list.
\<close>

record files =
  filepath_Join :: "string list \<Rightarrow> string"
  filepath_Dir :: "string \<Rightarrow> string"
  os_MkdirAll :: "string \<Rightarrow> error option"
  os_WriteFile :: "string \<Rightarrow> string \<Rightarrow> error option"
  json_MarshalIndent :: "SubscriptionInfo list \<Rightarrow> error + string"

record backup_flags =
  backupResourceGroup :: string
  backupAPIMName :: string
  backupSubscription :: string
  backupProductID :: string
  backupOutput :: string

definition BackupDir :: "files \<Rightarrow> string \<Rightarrow> string \<Rightarrow> string \<Rightarrow> string" where
  "BackupDir fs resourceGroup' serviceName productID =
     (let dir = filepath_Join fs [''backup'', resourceGroup', serviceName]
      in if productID \<noteq> '''' then filepath_Join fs [dir, productID] else dir)"

definition MkdirAll :: "files \<Rightarrow> string \<Rightarrow> 'r world \<Rightarrow> error option \<times> 'r world" where
  "MkdirAll fs dir w = (os_MkdirAll fs dir, w\<lparr>trace := trace w @ [Call_MkdirAll dir]\<rparr>)"

definition WriteFile :: "files \<Rightarrow> string \<Rightarrow> string \<Rightarrow> 'r world \<Rightarrow> error option \<times> 'r world" where
  "WriteFile fs name data w =
     (os_WriteFile fs name data, w\<lparr>trace := trace w @ [Call_WriteFile name data]\<rparr>)"

definition EnsureBackupDir ::
  "files \<Rightarrow> string \<Rightarrow> string \<Rightarrow> string \<Rightarrow> 'r world \<Rightarrow> (error + string) \<times> 'r world" where
  "EnsureBackupDir fs resourceGroup' serviceName productID w =
     (let dir = BackupDir fs resourceGroup' serviceName productID
      in case MkdirAll fs dir w of
           (Some err, w') \<Rightarrow> (Inl (Wrap (''failed to create backup directory '' @ dir) err), w')
         | (None, w') \<Rightarrow> (Inr dir, w'))"

text \<open>
  The part of both variants after the listing: the error that \<open>ListSubscriptions\<close>
  returned is overwritten by the next assignment to \<open>err\<close> without having been read, and
  \<open>subs\<close> is \<open>nil\<close> when there was one.
\<close>

definition listed_subs :: "error + SubscriptionInfo list \<Rightarrow> SubscriptionInfo list" where
  "listed_subs listed = (case listed of Inl err \<Rightarrow> [] | Inr subs \<Rightarrow> subs)"

text \<open>The variant with the \<open>--output\<close> flag.\<close>

definition runBackup ::
  "'r sdk \<Rightarrow> files \<Rightarrow> backup_flags \<Rightarrow> 'r world \<Rightarrow> (panic + error option) \<times> 'r world" where
  "runBackup sdk fs fl w =
     (case (if backupOutput fl \<noteq> '''' then (Inr (backupOutput fl), w)
            else (case EnsureBackupDir fs (backupResourceGroup fl) (backupAPIMName fl)
                         (backupProductID fl) w of
                    (Inl err, w') \<Rightarrow> (Inl (Wrap ''failed to create backup directory'' err), w')
                  | (Inr backupDir, w') \<Rightarrow>
                      (Inr (filepath_Join fs [backupDir, ''subscriptions.json'']), w'))) of
        (Inl err, w1) \<Rightarrow> (Inr (Some err), w1)
      | (Inr filePath, w1) \<Rightarrow>
          (case NewClient sdk (backupSubscription fl) (backupResourceGroup fl) (backupAPIMName fl) of
             Inl err \<Rightarrow> (Inr (Some (Wrap ''authentication failed'' err)), w1)
           | Inr client \<Rightarrow>
               (case ListSubscriptions sdk client (backupProductID fl) w1 of
                  (Inl p, w2) \<Rightarrow> (Inl p, w2)
                | (Inr listed, w2) \<Rightarrow>
                    (case json_MarshalIndent fs (listed_subs listed) of
                       Inl err \<Rightarrow> (Inr (Some (Wrap ''failed to marshal subscriptions to JSON'' err)), w2)
                     | Inr prettyJSON \<Rightarrow>
                         (case (if backupOutput fl \<noteq> ''''
                                   \<and> filepath_Dir fs filePath \<noteq> ''.''
                                   \<and> filepath_Dir fs filePath \<noteq> ''''
                                then MkdirAll fs (filepath_Dir fs filePath) w2
                                else (None, w2)) of
                            (Some err, w3) \<Rightarrow>
                              (Inr (Some (Wrap ''failed to create output directory'' err)), w3)
                          | (None, w3) \<Rightarrow>
                              (case WriteFile fs filePath prettyJSON w3 of
                                 (Some err, w4) \<Rightarrow>
                                   (Inr (Some (Wrap ''failed to write backup file'' err)), w4)
                               | (None, w4) \<Rightarrow> (Inr None, w4)))))))"

text \<open>The earlier variant, which always writes below the backup directory.\<close>

definition runBackup_dir ::
  "'r sdk \<Rightarrow> files \<Rightarrow> backup_flags \<Rightarrow> 'r world \<Rightarrow> (panic + error option) \<times> 'r world" where
  "runBackup_dir sdk fs fl w =
     (case EnsureBackupDir fs (backupResourceGroup fl) (backupAPIMName fl) (backupProductID fl) w of
        (Inl err, w1) \<Rightarrow> (Inr (Some (Wrap ''failed to create backup directory'' err)), w1)
      | (Inr backupDir, w1) \<Rightarrow>
          (case NewClient sdk (backupSubscription fl) (backupResourceGroup fl) (backupAPIMName fl) of
             Inl err \<Rightarrow> (Inr (Some (Wrap ''authentication failed'' err)), w1)
           | Inr client \<Rightarrow>
               (case ListSubscriptions sdk client (backupProductID fl) w1 of
                  (Inl p, w2) \<Rightarrow> (Inl p, w2)
                | (Inr listed, w2) \<Rightarrow>
                    (case json_MarshalIndent fs (listed_subs listed) of
                       Inl err \<Rightarrow> (Inr (Some (Wrap ''failed to marshal subscriptions to JSON'' err)), w2)
                     | Inr prettyJSON \<Rightarrow>
                         (case WriteFile fs (filepath_Join fs [backupDir, ''subscriptions.json''])
                                 prettyJSON w2 of
                            (Some err, w3) \<Rightarrow>
                              (Inr (Some (Wrap ''failed to write backup file'' err)), w3)
                          | (None, w3) \<Rightarrow> (Inr None, w3))))))"

section \<open>Example collaborators\<close>

definition example_properties :: "string \<Rightarrow> SubscriptionContractProperties" where
  "example_properties displayName =
     \<lparr>p_OwnerID = None,
      p_Scope = Some ''/subscriptions/s/resourceGroups/g/providers/Microsoft.ApiManagement/service/i/products/p1'',
      p_DisplayName = Some displayName,
      p_State = Some ''active'',
      p_StateComment = None,
      p_AllowTracing = Some False,
      p_CreatedDate = Some 0,
      p_StartDate = None,
      p_EndDate = None,
      p_ExpirationDate = None,
      p_NotificationDate = None\<rparr>"

definition example_contract :: "string \<Rightarrow> string \<Rightarrow> SubscriptionContract" where
  "example_contract name displayName =
     \<lparr>c_ID = Some (''/service/i/subscriptions/'' @ name),
      c_Name = Some name,
      c_Type = Some ''Microsoft.ApiManagement/service/subscriptions'',
      c_Properties = Some (example_properties displayName)\<rparr>"

definition example_sdk ::
  "(error + SubscriptionContract option list) list \<Rightarrow> string list \<Rightarrow> string list \<Rightarrow> nat sdk" where
  \<comment> \<open>a service with the given pages whose state counts the calls it has answered; the secret
      fetch fails for the names of the first list, the delete call for those of the second\<close>
  "example_sdk pages no_secrets no_delete =
     \<lparr>resolveSubscriptionID = Inr ''sub-1'',
      NewAzureCLICredential = None,
      NewClientFactory = (\<lambda>sid. None),
      Subscription_pages = (\<lambda>rg apim r. pages),
      ProductSubscriptions_pages = (\<lambda>rg apim productID r. pages),
      ListSecrets = (\<lambda>rg apim name r.
        (if name \<in> set no_secrets then Inl (External ''secrets unavailable'')
         else Inr \<lparr>k_PrimaryKey = Some (name @ ''-pk''), k_SecondaryKey = Some (name @ ''-sk'')\<rparr>,
         Suc r)),
      CreateOrUpdate = (\<lambda>rg apim sid params r.
        (Inr \<lparr>c_ID = Some sid, c_Name = Some sid, c_Type = None,
              c_Properties = Some
                \<lparr>p_OwnerID = cp_OwnerID params,
                 p_Scope = cp_Scope params,
                 p_DisplayName = cp_DisplayName params,
                 p_State = Some ''active'',
                 p_StateComment = None,
                 p_AllowTracing = cp_AllowTracing params,
                 p_CreatedDate = Some 0,
                 p_StartDate = None,
                 p_EndDate = None,
                 p_ExpirationDate = None,
                 p_NotificationDate = None\<rparr>\<rparr>,
         Suc r)),
      Delete = (\<lambda>rg apim sid r.
        (if sid \<in> set no_delete then Some (External ''delete refused'') else None, Suc r)),
      Format = (\<lambda>t. ''2024-01-01T00:00:00Z'')\<rparr>"

definition example_files :: files where
  \<comment> \<open>a file system on which every call succeeds; a \<open>nil\<close> slice is encoded as \<open>null\<close>\<close>
  "example_files =
     \<lparr>filepath_Join = (\<lambda>parts. foldr (\<lambda>a b. if b = '''' then a else a @ ''/'' @ b) parts ''''),
      filepath_Dir = (\<lambda>path. if CHR ''/'' \<in> set path
                              then rev (tl (dropWhile (\<lambda>c. c \<noteq> CHR ''/'') (rev path)))
                              else ''.''),
      os_MkdirAll = (\<lambda>dir. None),
      os_WriteFile = (\<lambda>name data. None),
      json_MarshalIndent = (\<lambda>subs. Inr (if subs = [] then ''null'' else ''[...]''))\<rparr>"

definition example_restore_host :: "SubscriptionInfo list \<Rightarrow> host" where
  \<comment> \<open>one readable file, \<open>in.json\<close>, which decodes to the given snapshot\<close>
  "example_restore_host snap =
     \<lparr>os_ReadFile = (\<lambda>path. if path = ''in.json'' then Inr ''<bytes>''
                            else Inl (External ''no such file'')),
      json_Unmarshal = (\<lambda>data. Inr snap)\<rparr>"

definition example_delete_flags :: "bool \<Rightarrow> bool \<Rightarrow> delete_flags" where
  "example_delete_flags dryRun all =
     \<lparr>deleteResourceGroup = ''g'', deleteAPIMName = ''i'', deleteSubscription = ''sub-1'',
      deleteProductID = '''', deleteDryRun = dryRun, deleteAll = all\<rparr>"

definition example_restore_flags :: "bool \<Rightarrow> restore_flags" where
  "example_restore_flags dryRun =
     \<lparr>restoreResourceGroup = ''g2'', restoreAPIMName = ''i2'', restoreSubscription = ''sub-2'',
      restoreInput = ''in.json'', restoreDryRun = dryRun\<rparr>"

definition example_backup_flags :: "string \<Rightarrow> backup_flags" where
  "example_backup_flags output =
     \<lparr>backupResourceGroup = ''g'', backupAPIMName = ''i'', backupSubscription = ''sub-1'',
      backupProductID = '''', backupOutput = output\<rparr>"

definition example_client :: Client where
  "example_client = \<lparr>subscriptionID = ''sub-1'', resourceGroup = ''g'', apimName = ''i''\<rparr>"

definition with_Scope :: "string \<Rightarrow> SubscriptionInfo \<Rightarrow> SubscriptionInfo" where
  "with_Scope scope sub = sub\<lparr>Properties := (Properties sub)\<lparr>Scope := scope\<rparr>\<rparr>"

section \<open>Properties of the string functions\<close>

lemma find_rev_upt_Some:
  "find P (rev [0..<n]) = Some i \<longleftrightarrow> i < n \<and> P i \<and> (\<forall>j. i < j \<and> j < n \<longrightarrow> \<not> P j)"
proof (induction n)
  case 0
  then show ?case by simp
next
  case (Suc n)
  show ?case
  proof (cases "P n")
    case True
    then show ?thesis
      by (auto simp: less_Suc_eq)
  next
    case False
    then show ?thesis
      using Suc by (auto simp: less_Suc_eq)
  qed
qed

lemma find_upt_Some:
  "find P [0..<n] = Some i \<longleftrightarrow> i < n \<and> P i \<and> (\<forall>j<i. \<not> P j)"
  by (auto simp: find_Some_iff)

lemma occurs_at_sublist: "occurs_at sep s i \<Longrightarrow> sublist sep s"
proof -
  assume "occurs_at sep s i"
  then obtain r where "drop i s = sep @ r"
    by (auto simp: occurs_at_def prefix_def)
  then have "s = take i s @ sep @ r"
    by (metis append_take_drop_id)
  then show ?thesis
    unfolding sublist_def by blast
qed

lemma sublist_occurs_at:
  assumes "sublist sep s"
  shows "\<exists>i\<le>length s. occurs_at sep s i"
proof -
  from assms obtain ps ss where s: "s = ps @ sep @ ss"
    unfolding sublist_def by blast
  have "occurs_at sep s (length ps)"
    by (simp add: s occurs_at_def)
  moreover have "length ps \<le> length s"
    by (simp add: s)
  ultimately show ?thesis by blast
qed

lemma LastIndex_absent: "\<not> sublist sep s \<Longrightarrow> LastIndex s sep = - 1"
  by (auto simp: LastIndex_def find_None_iff dest: occurs_at_sublist split: option.splits)

lemma LastIndex_cases:
  obtains (absent) "LastIndex s sep = - 1" and "\<not> sublist sep s"
  | (present) i where "LastIndex s sep = int i" and "i \<le> length s" and "occurs_at sep s i"
proof (cases "find (occurs_at sep s) (rev [0..<Suc (length s)])")
  case None
  then have no: "\<not> occurs_at sep s i" if "i \<le> length s" for i
    using that by (simp only: find_None_iff set_rev set_upt) auto
  have "\<not> sublist sep s"
    using no sublist_occurs_at by blast
  moreover have "LastIndex s sep = - 1"
    using None by (simp only: LastIndex_def option.case)
  ultimately show ?thesis using absent by blast
next
  case (Some i)
  then have "i \<le> length s" "occurs_at sep s i"
    by (simp_all only: find_rev_upt_Some less_Suc_eq_le)
  moreover have "LastIndex s sep = int i"
    using Some by (simp only: LastIndex_def option.case)
  ultimately show ?thesis using present by blast
qed

lemma LastIndex_append:
  assumes "sep \<noteq> []" and "\<not> sublist sep (tl (sep @ v))"
  shows "LastIndex (u @ sep @ v) sep = int (length u)"
proof -
  let ?s = "u @ sep @ v"
  have here: "occurs_at sep ?s (length u)"
    by (simp add: occurs_at_def)
  have later: "\<not> occurs_at sep ?s j" if "length u < j" for j
  proof
    assume occ: "occurs_at sep ?s j"
    from that obtain k where j: "j = Suc (length u + k)"
      by (metis less_iff_Suc_add)
    from assms(1) obtain c cs where sep: "sep = c # cs"
      by (cases sep) auto
    have "drop j ?s = drop k (tl (sep @ v))"
      by (simp add: j sep)
    with occ have "occurs_at sep (tl (sep @ v)) k"
      by (simp add: occurs_at_def)
    with assms(2) show False
      by (auto dest: occurs_at_sublist)
  qed
  have "find (occurs_at sep ?s) (rev [0..<Suc (length ?s)]) = Some (length u)"
    unfolding find_rev_upt_Some using here later by auto
  then show ?thesis
    by (simp add: LastIndex_def)
qed

lemma Index_char_absent: "c \<notin> set s \<Longrightarrow> Index s [c] = - 1"
proof -
  assume c: "c \<notin> set s"
  have "\<not> occurs_at [c] s i" for i
  proof
    assume "occurs_at [c] s i"
    then have "sublist [c] s" by (rule occurs_at_sublist)
    with c show False by (auto simp: sublist_def)
  qed
  then show ?thesis
    by (auto simp: Index_def find_None_iff split: option.splits)
qed

lemma Index_char_first:
  assumes "c \<notin> set a"
  shows "Index (a @ c # b) [c] = int (length a)"
proof -
  let ?s = "a @ c # b"
  have here: "occurs_at [c] ?s (length a)"
    by (simp add: occurs_at_def)
  have before: "\<not> occurs_at [c] ?s j" if "j < length a" for j
  proof
    assume "occurs_at [c] ?s j"
    then have "prefix [c] (drop j a @ c # b)"
      using that by (simp add: occurs_at_def)
    moreover from that obtain x xs where "drop j a = x # xs"
      by (cases "drop j a") auto
    ultimately have "drop j a = c # xs" by simp
    then have "c \<in> set (drop j a)" by simp
    then have "c \<in> set a" by (rule in_set_dropD)
    with assms show False by simp
  qed
  have "find (occurs_at [c] ?s) [0..<Suc (length ?s)] = Some (length a)"
    unfolding find_upt_Some using here before by auto
  then show ?thesis
    by (simp add: Index_def)
qed


lemma prefix_upto_char:
  assumes "c \<notin> set a" and "c \<notin> set b" and "prefix (a @ [c]) (b @ c # r)"
  shows "a = b"
  using assms
proof (induction a arbitrary: b)
  case Nil
  then show ?case by (cases b) auto
next
  case (Cons x a)
  then show ?case by (cases b) auto
qed

lemma sublist_has_chars: "sublist xs ys \<Longrightarrow> set xs \<subseteq> set ys"
  by (auto simp: sublist_def)

lemma no_marker_in_segment:
  assumes "CHR ''/'' \<notin> set inst"
  shows "sublist ''/service/'' (inst @ CHR ''/'' # w) \<longleftrightarrow>
           prefix ''service/'' w \<or> sublist ''/service/'' w"
  using assms by (induction inst) (auto simp: sublist_Cons_right)

lemma no_later_marker:
  assumes "CHR ''/'' \<notin> set inst" and "inst \<noteq> ''service''"
    and "\<not> prefix ''service/'' w" and "\<not> sublist ''/service/'' w"
  shows "\<not> sublist ''/service/'' (tl (''/service/'' @ inst @ CHR ''/'' # w))"
proof -
  have "\<not> prefix ''service/'' (inst @ CHR ''/'' # w)"
  proof
    assume "prefix ''service/'' (inst @ CHR ''/'' # w)"
    then have "prefix (''service'' @ [CHR ''/'']) (inst @ CHR ''/'' # w)" by simp
    with assms(1) have "''service'' = inst"
      by (intro prefix_upto_char[where c = "CHR ''/''"]) auto
    with assms(2) show False by simp
  qed
  then show ?thesis
    using assms by (simp add: sublist_Cons_right no_marker_in_segment)
qed

lemma TrimRight_no_trailing: "r = [] \<or> last r \<noteq> c \<Longrightarrow> TrimRight r [c] = r"
  by (cases r rule: rev_cases) (auto simp: TrimRight_def)

lemma TrimRight_result: "TrimRight w [c] = [] \<or> last (TrimRight w [c]) \<noteq> c"
proof (induction w rule: rev_induct)
  case Nil
  then show ?case by (simp add: TrimRight_def)
next
  case (snoc x xs)
  then show ?case by (auto simp: TrimRight_def)
qed

lemma TrimRight_decompose: "\<exists>n. w = TrimRight w [c] @ replicate n c"
proof (induction w rule: rev_induct)
  case Nil
  then show ?case by (simp add: TrimRight_def)
next
  case (snoc x xs)
  show ?case
  proof (cases "x = c")
    case True
    from snoc obtain n where n: "xs = TrimRight xs [c] @ replicate n c" by blast
    have "TrimRight (xs @ [x]) [c] = TrimRight xs [c]"
      using True by (simp add: TrimRight_def)
    moreover have "xs @ [x] = TrimRight xs [c] @ replicate (Suc n) c"
      using n True by (metis append_assoc replicate_append_same replicate_Suc)
    ultimately show ?thesis by metis
  next
    case False
    then have "TrimRight (xs @ [x]) [c] = xs @ [x]"
      by (simp add: TrimRight_def)
    then show ?thesis by (intro exI[of _ 0]) simp
  qed
qed

section \<open>Properties of the scope functions\<close>

lemma extractScopeSuffix_absent:
  "\<not> sublist ''/service/'' scope \<Longrightarrow> extractScopeSuffix scope = Inr []"
  by (simp add: extractScopeSuffix_def LastIndex_absent)

lemma extractScopeSuffix_rest:
  assumes "\<not> sublist ''/service/'' (tl (''/service/'' @ v))"
  shows "extractScopeSuffix (u @ ''/service/'' @ v) =
           (let slashIdx = Index v ''/''
            in if slashIdx = - 1 then Inr []
               else case slice_from v (slashIdx + 1) of
                      Inl e \<Rightarrow> Inl e
                    | Inr sfx \<Rightarrow> Inr (TrimRight sfx ''/''))"
proof -
  have "LastIndex (u @ ''/service/'' @ v) ''/service/'' = int (length u)"
    using assms by (intro LastIndex_append) simp_all
  moreover have "slice_from (u @ ''/service/'' @ v) (int (length u) + int (length ''/service/'')) = Inr v"
    by (simp add: slice_from_def nat_add_distrib)
  ultimately show ?thesis
    unfolding extractScopeSuffix_def Let_def by simp
qed

lemma extractScopeSuffix_instance:
  assumes "\<not> sublist ''/service/'' (tl (''/service/'' @ v))" and "CHR ''/'' \<notin> set v"
  shows "extractScopeSuffix (u @ ''/service/'' @ v) = Inr []"
proof -
  have "Index v ''/'' = - 1"
    using assms(2) by (rule Index_char_absent)
  then show ?thesis
    unfolding extractScopeSuffix_rest[OF assms(1)] by simp
qed

lemma extractScopeSuffix_nested:
  assumes "\<not> sublist ''/service/'' (tl (''/service/'' @ inst @ CHR ''/'' # w))"
    and "CHR ''/'' \<notin> set inst"
  shows "extractScopeSuffix (u @ ''/service/'' @ inst @ CHR ''/'' # w) = Inr (TrimRight w ''/'')"
proof -
  let ?v = "inst @ CHR ''/'' # w"
  have idx: "Index ?v ''/'' = int (length inst)"
    using assms(2) by (rule Index_char_first)
  have "slice_from ?v (int (length inst) + 1) = Inr w"
    by (simp add: slice_from_def nat_add_distrib)
  then have "(let slashIdx = Index ?v ''/''
            in if slashIdx = - 1 then Inr []
               else case slice_from ?v (slashIdx + 1) of
                      Inl e \<Rightarrow> Inl e
                    | Inr sfx \<Rightarrow> Inr (TrimRight sfx ''/'')) = Inr (TrimRight w ''/'')"
    by (simp add: idx)
  then show ?thesis
    unfolding extractScopeSuffix_rest[OF assms(1)] .
qed

lemma Index_cases:
  obtains (absent) "Index s sep = - 1"
  | (present) i where "Index s sep = int i" and "i \<le> length s" and "occurs_at sep s i"
proof (cases "find (occurs_at sep s) [0..<Suc (length s)]")
  case None
  then have "Index s sep = - 1"
    by (simp only: Index_def option.case)
  then show ?thesis by (rule absent)
next
  case (Some i)
  then have "i \<le> length s" "occurs_at sep s i"
    by (simp_all only: find_upt_Some less_Suc_eq_le)
  moreover have "Index s sep = int i"
    using Some by (simp only: Index_def option.case)
  ultimately show ?thesis using present by blast
qed

lemma occurs_at_bound:
  assumes "occurs_at sep s i" and "i \<le> length s"
  shows "i + length sep \<le> length s"
proof -
  from assms(1) have "length sep \<le> length (drop i s)"
    unfolding occurs_at_def by (rule prefix_length_le)
  with assms(2) show ?thesis by simp
qed

lemma extractScopeSuffix_total: "\<exists>r. extractScopeSuffix scope = Inr r"
proof (rule LastIndex_cases[of scope "''/service/''"], goal_cases absent present)
  case absent
  then show ?case by (simp add: extractScopeSuffix_def)
next
  case (present i)
  from occurs_at_bound[OF present(3,2)] have i: "i + 9 \<le> length scope" by simp
  let ?rest = "drop (i + 9) scope"
  have rest: "slice_from scope (int i + int (length ''/service/'')) = Inr ?rest"
    using i by (simp add: slice_from_def nat_add_distrib)
  show ?case
  proof (rule Index_cases[of ?rest "''/''"], goal_cases noslash slash)
    case noslash
    then show ?case
      using rest present(1)
      by (simp add: extractScopeSuffix_def)
  next
    case (slash k)
    from occurs_at_bound[OF slash(3,2)] have "k + 1 \<le> length ?rest" by simp
    then have "\<exists>r. slice_from ?rest (int k + 1) = Inr r"
      by (simp add: slice_from_def)
    then show ?case
      using rest present(1) slash(1)
      by (auto simp: extractScopeSuffix_def Let_def)
  qed
qed

lemma no_later_marker_instance:
  assumes "CHR ''/'' \<notin> set inst"
  shows "\<not> sublist ''/service/'' (tl (''/service/'' @ inst))"
proof
  assume "sublist ''/service/'' (tl (''/service/'' @ inst))"
  then have "prefix ''service/'' inst \<or> sublist ''/service/'' inst"
    by (simp add: sublist_Cons_right)
  then have "CHR ''/'' \<in> set inst"
    by (auto dest: set_mono_prefix sublist_has_chars)
  with assms show False by simp
qed

lemma extractScopeSuffix_instance_slash:
  assumes "CHR ''/'' \<notin> set inst"
  shows "extractScopeSuffix (u @ ''/service/'' @ inst @ ''/'') = Inr []"
proof (cases "inst = ''service''")
  case True
  have "\<not> sublist ''/service/'' (tl (''/service/'' @ []))"
    by (simp add: sublist_Cons_right)
  then have "extractScopeSuffix ((u @ ''/service'') @ ''/service/'' @ []) = Inr []"
    by (rule extractScopeSuffix_instance) simp
  then show ?thesis
    using True by simp
next
  case False
  have "\<not> sublist ''/service/'' (tl (''/service/'' @ inst @ CHR ''/'' # []))"
    using assms False by (rule no_later_marker) (simp_all add: sublist_Cons_right)
  then have "extractScopeSuffix (u @ ''/service/'' @ inst @ CHR ''/'' # []) = Inr (TrimRight [] ''/'')"
    using assms by (rule extractScopeSuffix_nested)
  then show ?thesis
    by (simp add: TrimRight_def)
qed

text \<open>
  C5 (as amended). On every scope string \<open>extractScopeSuffix\<close> returns a value and never
  panics. Without the marker \<open>/service/\<close> the value is the empty string. It is the empty
  string too for an instance-level scope, one that ends in \<open>/service/<instance>\<close> or in
  \<open>/service/<instance>/\<close>. When the last marker is followed by \<open><instance>/w\<close>, the value is
  \<open>w\<close> with all of its trailing slashes removed (not just one).
\<close>

theorem extractScopeSuffix_algorithm:
  "(\<not> sublist ''/service/'' scope \<longrightarrow> extractScopeSuffix scope = Inr '''')
   \<and> (\<forall>u inst. CHR ''/'' \<notin> set inst
          \<and> (scope = u @ ''/service/'' @ inst \<or> scope = u @ ''/service/'' @ inst @ ''/'')
        \<longrightarrow> extractScopeSuffix scope = Inr '''')
   \<and> (\<forall>u inst w. scope = u @ ''/service/'' @ inst @ ''/'' @ w
          \<and> CHR ''/'' \<notin> set inst
          \<and> \<not> sublist ''/service/'' (tl (''/service/'' @ inst @ ''/'' @ w))
        \<longrightarrow> (\<exists>r n. extractScopeSuffix scope = Inr r
                  \<and> w = r @ replicate n CHR ''/''
                  \<and> (r = '''' \<or> last r \<noteq> CHR ''/'')))
   \<and> (\<exists>r. extractScopeSuffix scope = Inr r)"
proof (intro conjI allI impI)
  assume "\<not> sublist ''/service/'' scope"
  then show "extractScopeSuffix scope = Inr ''''"
    by (rule extractScopeSuffix_absent)
next
  fix u inst
  assume a: "CHR ''/'' \<notin> set inst
    \<and> (scope = u @ ''/service/'' @ inst \<or> scope = u @ ''/service/'' @ inst @ ''/'')"
  then have inst: "CHR ''/'' \<notin> set inst" by simp
  from a consider "scope = u @ ''/service/'' @ inst" | "scope = u @ ''/service/'' @ inst @ ''/''"
    by blast
  then show "extractScopeSuffix scope = Inr ''''"
  proof cases
    case 1
    show ?thesis
      unfolding 1
      using no_later_marker_instance[OF inst] inst by (rule extractScopeSuffix_instance)
  next
    case 2
    show ?thesis
      unfolding 2 using inst by (rule extractScopeSuffix_instance_slash)
  qed
next
  fix u inst w
  assume a: "scope = u @ ''/service/'' @ inst @ ''/'' @ w
    \<and> CHR ''/'' \<notin> set inst
    \<and> \<not> sublist ''/service/'' (tl (''/service/'' @ inst @ ''/'' @ w))"
  then have scope: "scope = u @ ''/service/'' @ inst @ CHR ''/'' # w"
    and inst: "CHR ''/'' \<notin> set inst"
    and last: "\<not> sublist ''/service/'' (tl (''/service/'' @ inst @ CHR ''/'' # w))"
    by simp_all
  have r: "extractScopeSuffix scope = Inr (TrimRight w ''/'')"
    unfolding scope using last inst by (rule extractScopeSuffix_nested)
  obtain n where n: "w = TrimRight w ''/'' @ replicate n CHR ''/''"
    using TrimRight_decompose[of w "CHR ''/''"] by blast
  have "TrimRight w ''/'' = '''' \<or> last (TrimRight w ''/'') \<noteq> CHR ''/''"
    by (rule TrimRight_result)
  with r n show "\<exists>r n. extractScopeSuffix scope = Inr r
      \<and> w = r @ replicate n CHR ''/'' \<and> (r = '''' \<or> last r \<noteq> CHR ''/'')"
    by blast
next
  show "\<exists>r. extractScopeSuffix scope = Inr r"
    by (rule extractScopeSuffix_total)
qed

theorem extractScopeSuffix_algorithm_witness:
  "extractScopeSuffix ''/subscriptions/x/resourceGroups/g/no-marker'' = Inr ''''
   \<and> extractScopeSuffix ''/subscriptions/x/service/myinstance'' = Inr ''''
   \<and> extractScopeSuffix ''/subscriptions/x/service/myinstance/'' = Inr ''''
   \<and> (\<exists>r n. extractScopeSuffix ''/subscriptions/x/service/myinstance/products/p1//'' = Inr r
          \<and> ''products/p1//'' = r @ replicate n CHR ''/''
          \<and> (r = '''' \<or> last r \<noteq> CHR ''/''))"
proof (intro conjI)
  have "\<not> sublist ''/service/'' ''/subscriptions/x/resourceGroups/g/no-marker''"
    by (simp add: sublist_Cons_right)
  with extractScopeSuffix_algorithm[of "''/subscriptions/x/resourceGroups/g/no-marker''"]
  show "extractScopeSuffix ''/subscriptions/x/resourceGroups/g/no-marker'' = Inr ''''"
    by blast
next
  have "CHR ''/'' \<notin> set ''myinstance''
    \<and> (''/subscriptions/x/service/myinstance'' = ''/subscriptions/x'' @ ''/service/'' @ ''myinstance''
       \<or> ''/subscriptions/x/service/myinstance'' = ''/subscriptions/x'' @ ''/service/'' @ ''myinstance'' @ ''/'')"
    by simp
  with extractScopeSuffix_algorithm[of "''/subscriptions/x/service/myinstance''"]
  show "extractScopeSuffix ''/subscriptions/x/service/myinstance'' = Inr ''''"
    by blast
next
  have "CHR ''/'' \<notin> set ''myinstance''
    \<and> (''/subscriptions/x/service/myinstance/'' = ''/subscriptions/x'' @ ''/service/'' @ ''myinstance''
       \<or> ''/subscriptions/x/service/myinstance/'' = ''/subscriptions/x'' @ ''/service/'' @ ''myinstance'' @ ''/'')"
    by simp
  with extractScopeSuffix_algorithm[of "''/subscriptions/x/service/myinstance/''"]
  show "extractScopeSuffix ''/subscriptions/x/service/myinstance/'' = Inr ''''"
    by blast
next
  have "''/subscriptions/x/service/myinstance/products/p1//''
      = ''/subscriptions/x'' @ ''/service/'' @ ''myinstance'' @ ''/'' @ ''products/p1//''
    \<and> CHR ''/'' \<notin> set ''myinstance''
    \<and> \<not> sublist ''/service/'' (tl (''/service/'' @ ''myinstance'' @ ''/'' @ ''products/p1//''))"
    by (simp add: sublist_Cons_right)
  with extractScopeSuffix_algorithm[of "''/subscriptions/x/service/myinstance/products/p1//''"]
  show "\<exists>r n. extractScopeSuffix ''/subscriptions/x/service/myinstance/products/p1//'' = Inr r
          \<and> ''products/p1//'' = r @ replicate n CHR ''/''
          \<and> (r = '''' \<or> last r \<noteq> CHR ''/'')"
    by blast
qed

theorem extractScopeSuffix_one_slash_counterexample:
  "extractScopeSuffix ''/subscriptions/x/service/myinstance/products/p1//'' = Inr ''products/p1''
   \<and> ExtractSuffix_spec ''/subscriptions/x/service/myinstance/products/p1//'' = ''products/p1/''"
  by (simp add: extractScopeSuffix_def ExtractSuffix_spec_def LastIndex_def Index_def
      occurs_at_def slice_from_def TrimRight_def TrimSuffix_def suffix_to_prefix)

lemma buildScopeFromSuffix_empty:
  "buildScopeFromSuffix sub rg inst [] =
     (''/subscriptions/'' @ sub @ ''/resourceGroups/'' @ rg @ ''/providers/Microsoft.ApiManagement'')
     @ ''/service/'' @ inst"
  by (simp add: buildScopeFromSuffix_def)

lemma buildScopeFromSuffix_nonempty:
  "sfx \<noteq> [] \<Longrightarrow> buildScopeFromSuffix sub rg inst sfx =
     (''/subscriptions/'' @ sub @ ''/resourceGroups/'' @ rg @ ''/providers/Microsoft.ApiManagement'')
     @ ''/service/'' @ inst @ CHR ''/'' # sfx"
  by (simp add: buildScopeFromSuffix_def)

text \<open>
  C4 (as amended). Building a scope from a suffix and extracting the suffix again gives the
  suffix back, for every subscription id and resource group, provided the instance name
  is a single path segment other than \<open>service\<close> and the suffix neither ends in a slash,
  nor starts with \<open>service/\<close>, nor contains the marker \<open>/service/\<close>.
\<close>

theorem extractScopeSuffix_buildScopeFromSuffix:
  assumes "CHR ''/'' \<notin> set inst" and "inst \<noteq> ''service''"
    and "\<not> sublist ''/service/'' sfx" and "\<not> prefix ''service/'' sfx"
    and "sfx = '''' \<or> last sfx \<noteq> CHR ''/''"
  shows "extractScopeSuffix (buildScopeFromSuffix sub rg inst sfx) = Inr sfx"
proof (cases "sfx = []")
  case True
  have "extractScopeSuffix (buildScopeFromSuffix sub rg inst []) = Inr []"
    unfolding buildScopeFromSuffix_empty
    by (rule extractScopeSuffix_instance[OF no_later_marker_instance[OF assms(1)] assms(1)])
  with True show ?thesis by simp
next
  case False
  have later: "\<not> sublist ''/service/'' (tl (''/service/'' @ inst @ CHR ''/'' # sfx))"
    using assms(1,2,4,3) by (rule no_later_marker)
  have "extractScopeSuffix (buildScopeFromSuffix sub rg inst sfx) = Inr (TrimRight sfx ''/'')"
    unfolding buildScopeFromSuffix_nonempty[OF False]
    by (rule extractScopeSuffix_nested[OF later assms(1)])
  moreover have "TrimRight sfx ''/'' = sfx"
    using assms(5) by (rule TrimRight_no_trailing)
  ultimately show ?thesis by simp
qed

theorem extractScopeSuffix_buildScopeFromSuffix_witness:
  "CHR ''/'' \<notin> set ''myinstance'' \<and> ''myinstance'' \<noteq> ''service''
   \<and> \<not> sublist ''/service/'' ''products/p1'' \<and> \<not> prefix ''service/'' ''products/p1''
   \<and> (''products/p1'' = '''' \<or> last ''products/p1'' \<noteq> CHR ''/'')
   \<and> extractScopeSuffix (buildScopeFromSuffix ''sub-1'' ''rg-1'' ''myinstance'' ''products/p1'')
       = Inr ''products/p1''"
proof -
  have h1: "CHR ''/'' \<notin> set ''myinstance''" by simp
  have h2: "''myinstance'' \<noteq> ''service''" by simp
  have h3: "\<not> sublist ''/service/'' ''products/p1''" by (simp add: sublist_Cons_right)
  have h4: "\<not> prefix ''service/'' ''products/p1''" by simp
  have h5: "''products/p1'' = '''' \<or> last ''products/p1'' \<noteq> CHR ''/''" by simp
  from extractScopeSuffix_buildScopeFromSuffix[OF h1 h2 h3 h4 h5, of "''sub-1''" "''rg-1''"]
    h1 h2 h3 h4 h5
  show ?thesis by blast
qed

theorem extractScopeSuffix_buildScopeFromSuffix_counterexample:
  "''products/p1/'' \<noteq> '''' \<and> \<not> sublist ''/service/'' ''products/p1/''
   \<and> extractScopeSuffix (buildScopeFromSuffix ''sub-1'' ''rg-1'' ''myinstance'' ''products/p1/'')
       = Inr ''products/p1''
   \<and> ''service/x'' \<noteq> '''' \<and> \<not> sublist ''/service/'' ''service/x''
   \<and> extractScopeSuffix (buildScopeFromSuffix ''sub-1'' ''rg-1'' ''myinstance'' ''service/x'')
       = Inr ''''
   \<and> extractScopeSuffix (buildScopeFromSuffix ''sub-1'' ''rg-1'' ''a/b'' ''products/p1'')
       = Inr ''b/products/p1''
   \<and> extractScopeSuffix (buildScopeFromSuffix ''sub-1'' ''rg-1'' ''service'' ''products/p1'')
       = Inr ''p1''"
  by (simp add: extractScopeSuffix_def buildScopeFromSuffix_def LastIndex_def Index_def
      occurs_at_def slice_from_def TrimRight_def sublist_Cons_right)

lemma no_later_products:
  assumes "CHR ''/'' \<notin> set pid"
  shows "\<not> sublist ''/products/'' (tl (''/products/'' @ pid))"
proof
  assume "sublist ''/products/'' (tl (''/products/'' @ pid))"
  then have "prefix ''products/'' pid \<or> sublist ''/products/'' pid"
    by (simp add: sublist_Cons_right)
  then have "CHR ''/'' \<in> set pid"
    by (auto dest: set_mono_prefix sublist_has_chars)
  with assms show False by simp
qed

lemma extractProductID_last:
  assumes "CHR ''/'' \<notin> set pid"
  shows "extractProductID (u @ ''/products/'' @ pid) = Inr pid"
proof -
  have "LastIndex (u @ ''/products/'' @ pid) ''/products/'' = int (length u)"
    using no_later_products[OF assms] by (intro LastIndex_append) simp_all
  moreover have "slice_from (u @ ''/products/'' @ pid) (int (length u) + int (length ''/products/'')) = Inr pid"
    by (simp add: slice_from_def nat_add_distrib)
  ultimately show ?thesis
    unfolding extractProductID_def Let_def by simp
qed

lemma no_marker_in_products:
  assumes "CHR ''/'' \<notin> set pid"
  shows "\<not> sublist ''/service/'' (''products/'' @ pid)"
proof
  assume "sublist ''/service/'' (''products/'' @ pid)"
  then have "prefix ''service/'' pid \<or> sublist ''/service/'' pid"
    by (simp add: sublist_Cons_right)
  then have "CHR ''/'' \<in> set pid"
    by (auto dest: set_mono_prefix sublist_has_chars)
  with assms show False by simp
qed

lemma extractScopeSuffix_product_scope:
  assumes "CHR ''/'' \<notin> set pid" and "pid \<noteq> []"
    and "CHR ''/'' \<notin> set inst" and "inst \<noteq> ''service''"
  shows "extractScopeSuffix (pre @ ''/service/'' @ inst @ ''/products/'' @ pid)
           = Inr (''products/'' @ pid)"
proof -
  let ?w = "''products/'' @ pid"
  have later: "\<not> sublist ''/service/'' (tl (''/service/'' @ inst @ CHR ''/'' # ?w))"
    using assms(3,4) _ no_marker_in_products[OF assms(1)] by (rule no_later_marker) simp
  have "extractScopeSuffix (pre @ ''/service/'' @ inst @ CHR ''/'' # ?w) = Inr (TrimRight ?w ''/'')"
    using later assms(3) by (rule extractScopeSuffix_nested)
  moreover have "last ?w \<noteq> CHR ''/''"
  proof -
    have "last ?w = last pid" using assms(2) by simp
    moreover have "last pid \<in> set pid" using assms(2) by (rule last_in_set)
    ultimately show ?thesis using assms(1) by metis
  qed
  then have "TrimRight ?w ''/'' = ?w"
    by (intro TrimRight_no_trailing) blast
  ultimately show ?thesis by simp
qed

section \<open>Properties of the compare command\<close>

lemma filterOutMaster_filter: "filterOutMaster subs = filter (\<lambda>sub. Name sub \<noteq> ''master'') subs"
  by (induction subs) simp_all

lemma runCompare_inner_found:
  "fst (runCompare_inner subA subsB st) \<longleftrightarrow> (\<exists>subB\<in>set subsB. same_keys subA subB)"
  by (induction subsB) (auto simp: same_keys_def)

lemma classify_Nil: "classify subA [] = Missing"
  by (simp add: classify_def)

lemma classify_Cons:
  "classify subA (subB # subsB) =
     (if same_keys subA subB then (if attributesEqual subA subB then Matched else Mismatched)
      else classify subA subsB)"
  by (simp add: classify_def)

lemma report_Nil:
  "report subA [] = [MISS (DisplayName (Properties subA)) (PrimaryKey (Properties subA))]"
  by (simp add: report_def)

lemma report_Cons:
  "report subA (subB # subsB) =
     (if same_keys subA subB
      then (if attributesEqual subA subB then [OK (DisplayName (Properties subA))]
            else DIFF (DisplayName (Properties subA)) # printAttributeDifferences subA subB)
      else report subA subsB)"
  by (simp add: report_def)

lemma classify_Missing_iff:
  "classify subA subsB = Missing \<longleftrightarrow> \<not> (\<exists>subB\<in>set subsB. same_keys subA subB)"
  by (induction subsB) (simp_all add: classify_Nil classify_Cons)

lemma runCompare_inner_state:
  "snd (runCompare_inner subA subsB st) =
     (case classify subA subsB of
        Matched \<Rightarrow> st\<lparr>printed := printed st @ report subA subsB, matched := matched st + 1\<rparr>
      | Mismatched \<Rightarrow> st\<lparr>printed := printed st @ report subA subsB, mismatch := mismatch st + 1\<rparr>
      | Missing \<Rightarrow> st)"
  by (induction subsB) (simp_all add: classify_Nil classify_Cons report_Cons same_keys_def split: outcome.split)

lemma tally_Nil: "tally oc [] subsB = 0"
  by (simp add: tally_def)

lemma tally_Cons:
  "tally oc (subA # subsA) subsB =
     (if classify subA subsB = oc then 1 else 0) + tally oc subsA subsB"
  by (simp add: tally_def)

lemma runCompare_loop_state:
  "runCompare_loop subsA subsB st =
     \<lparr>printed = printed st @ concat (map (\<lambda>subA. report subA subsB) subsA),
      matched = matched st + tally Matched subsA subsB,
      missing = missing st + tally Missing subsA subsB,
      mismatch = mismatch st + tally Mismatched subsA subsB\<rparr>"
proof (induction subsA arbitrary: st)
  case Nil
  show ?case by (simp add: tally_Nil)
next
  case (Cons subA subsA)
  obtain found st' where inner: "runCompare_inner subA subsB st = (found, st')"
    by (cases "runCompare_inner subA subsB st")
  have found: "found \<longleftrightarrow> classify subA subsB \<noteq> Missing"
    using runCompare_inner_found[of subA subsB st] inner
    by (simp add: classify_Missing_iff)
  have st': "st' = (case classify subA subsB of
        Matched \<Rightarrow> st\<lparr>printed := printed st @ report subA subsB, matched := matched st + 1\<rparr>
      | Mismatched \<Rightarrow> st\<lparr>printed := printed st @ report subA subsB, mismatch := mismatch st + 1\<rparr>
      | Missing \<Rightarrow> st)"
    using runCompare_inner_state[of subA subsB st] inner by simp
  have miss: "classify subA subsB = Missing \<Longrightarrow>
      report subA subsB = [MISS (DisplayName (Properties subA)) (PrimaryKey (Properties subA))]"
    by (induction subsB) (simp_all add: classify_Cons report_Nil report_Cons split: if_splits)
  show ?case
  proof (cases "classify subA subsB")
    case Matched
    then show ?thesis
      using inner found st' by (simp add: Cons.IH tally_Cons)
  next
    case Mismatched
    then show ?thesis
      using inner found st' by (simp add: Cons.IH tally_Cons)
  next
    case Missing
    then show ?thesis
      using inner found st' miss by (simp add: Cons.IH tally_Cons)
  qed
qed

lemma tally_nonneg: "0 \<le> tally oc subsA subsB"
  by (simp add: tally_def)

lemma tally_zero_iff: "tally oc subsA subsB = 0 \<longleftrightarrow> (\<forall>subA\<in>set subsA. classify subA subsB \<noteq> oc)"
  by (auto simp: tally_def filter_empty_conv)

lemma all_Matched_iff:
  "(\<forall>subA\<in>set subsA. classify subA subsB = Matched) \<longleftrightarrow>
     tally Missing subsA subsB = 0 \<and> tally Mismatched subsA subsB = 0"
proof -
  have "oc = Matched \<longleftrightarrow> oc \<noteq> Missing \<and> oc \<noteq> Mismatched" for oc
    by (cases oc) simp_all
  then show ?thesis
    unfolding tally_zero_iff by blast
qed

lemma runCompare_files_eq:
  assumes "loadBackupFile h fileA = Inr snapA" and "loadBackupFile h fileB = Inr snapB"
  shows "runCompare_files h fileA fileB =
     ([Comparing_backup_files, File_A fileA, File_B fileB,
       Count_A (int (length (filterOutMaster snapA))),
       Count_B (int (length (filterOutMaster snapB)))]
      @ concat (map (\<lambda>subA. report subA (filterOutMaster snapB)) (filterOutMaster snapA))
      @ [Comparison_complete
           (tally Matched (filterOutMaster snapA) (filterOutMaster snapB))
           (tally Mismatched (filterOutMaster snapA) (filterOutMaster snapB))
           (tally Missing (filterOutMaster snapA) (filterOutMaster snapB))
           (int (length (filterOutMaster snapA)))],
      if \<forall>subA\<in>set (filterOutMaster snapA). classify subA (filterOutMaster snapB) = Matched
      then None
      else Some (ErrorfCount
                  (tally Mismatched (filterOutMaster snapA) (filterOutMaster snapB)
                   + tally Missing (filterOutMaster snapA) (filterOutMaster snapB))
                  ''key(s) missing or attributes differ''))"
proof -
  let ?A = "filterOutMaster snapA" and ?B = "filterOutMaster snapB"
  have pos: "(tally Missing ?A ?B > 0 \<or> tally Mismatched ?A ?B > 0) \<longleftrightarrow>
             \<not> (\<forall>subA\<in>set ?A. classify subA ?B = Matched)"
    using tally_nonneg[of Missing ?A ?B] tally_nonneg[of Mismatched ?A ?B]
    unfolding all_Matched_iff by linarith
  show ?thesis
    unfolding runCompare_files_def Let_def assms sum.case runCompare_loop_state
    using pos by (simp add: add.commute)
qed

text \<open>
  C6 (as amended). For two snapshots that load, named by the two positional arguments or
  by the two flags, the comparison returns no error exactly
  when every record of A that is not the master sentinel is matched against B without its
  master sentinel, where a record is matched when the \<^emph>\<open>first\<close> record of B with the same
  two keys agrees with it on every compared attribute. Otherwise the error carries the
  count mismatched + missing. In both cases the printed output holds the report of every
  record of A, in order, followed by the summary line.
\<close>

theorem runCompare_outcome:
  assumes "args = [fileA, fileB]
           \<or> (args = [] \<and> flagA = fileA \<and> flagB = fileB \<and> fileA \<noteq> '''' \<and> fileB \<noteq> '''')"
    and "loadBackupFile h fileA = Inr snapA" and "loadBackupFile h fileB = Inr snapB"
  shows "runCompare h flagA flagB args =
     ([Comparing_backup_files, File_A fileA, File_B fileB,
       Count_A (int (length (filterOutMaster snapA))),
       Count_B (int (length (filterOutMaster snapB)))]
      @ concat (map (\<lambda>subA. report subA (filterOutMaster snapB)) (filterOutMaster snapA))
      @ [Comparison_complete
           (tally Matched (filterOutMaster snapA) (filterOutMaster snapB))
           (tally Mismatched (filterOutMaster snapA) (filterOutMaster snapB))
           (tally Missing (filterOutMaster snapA) (filterOutMaster snapB))
           (int (length (filterOutMaster snapA)))],
      if \<forall>subA\<in>set (filterOutMaster snapA). classify subA (filterOutMaster snapB) = Matched
      then None
      else Some (ErrorfCount
                  (tally Mismatched (filterOutMaster snapA) (filterOutMaster snapB)
                   + tally Missing (filterOutMaster snapA) (filterOutMaster snapB))
                  ''key(s) missing or attributes differ''))"
proof -
  have "runCompare h flagA flagB args = runCompare_files h fileA fileB"
    using assms(1) by (auto simp: runCompare_def)
  then show ?thesis
    by (simp only: runCompare_files_eq[OF assms(2,3)])
qed

lemma example_load:
  "loadBackupFile (example_host snapA snapB) ''a.json'' = Inr snapA"
  "loadBackupFile (example_host snapA snapB) ''b.json'' = Inr snapB"
  by (simp_all add: loadBackupFile_def example_host_def)

theorem runCompare_outcome_witness:
  "loadBackupFile
     (example_host [example_record ''master'' ''Built-in'' ''m1'' ''m2'',
                    example_record ''s1'' ''Alpha'' ''k1'' ''k2'',
                    example_record ''s2'' ''Beta'' ''k3'' ''k4'']
                   [example_record ''master'' ''Built-in'' ''n1'' ''n2'',
                    example_record ''t1'' ''Alpha'' ''k1'' ''k2''])
     ''a.json''
     = Inr [example_record ''master'' ''Built-in'' ''m1'' ''m2'',
            example_record ''s1'' ''Alpha'' ''k1'' ''k2'',
            example_record ''s2'' ''Beta'' ''k3'' ''k4'']
   \<and> loadBackupFile
     (example_host [example_record ''master'' ''Built-in'' ''m1'' ''m2'',
                    example_record ''s1'' ''Alpha'' ''k1'' ''k2'',
                    example_record ''s2'' ''Beta'' ''k3'' ''k4'']
                   [example_record ''master'' ''Built-in'' ''n1'' ''n2'',
                    example_record ''t1'' ''Alpha'' ''k1'' ''k2''])
     ''b.json''
     = Inr [example_record ''master'' ''Built-in'' ''n1'' ''n2'',
            example_record ''t1'' ''Alpha'' ''k1'' ''k2'']
   \<and> runCompare
     (example_host [example_record ''master'' ''Built-in'' ''m1'' ''m2'',
                    example_record ''s1'' ''Alpha'' ''k1'' ''k2'',
                    example_record ''s2'' ''Beta'' ''k3'' ''k4'']
                   [example_record ''master'' ''Built-in'' ''n1'' ''n2'',
                    example_record ''t1'' ''Alpha'' ''k1'' ''k2''])
     '''' '''' [''a.json'', ''b.json'']
     = ([Comparing_backup_files, File_A ''a.json'', File_B ''b.json'', Count_A 2, Count_B 1,
         OK ''Alpha'', MISS ''Beta'' ''k3'', Comparison_complete 1 0 1 2],
        Some (ErrorfCount 1 ''key(s) missing or attributes differ''))"
proof -
  let ?A = "[example_record ''master'' ''Built-in'' ''m1'' ''m2'',
             example_record ''s1'' ''Alpha'' ''k1'' ''k2'',
             example_record ''s2'' ''Beta'' ''k3'' ''k4'']"
  let ?B = "[example_record ''master'' ''Built-in'' ''n1'' ''n2'',
             example_record ''t1'' ''Alpha'' ''k1'' ''k2'']"
  have a: "loadBackupFile (example_host ?A ?B) ''a.json'' = Inr ?A"
    by (rule example_load)
  have b: "loadBackupFile (example_host ?A ?B) ''b.json'' = Inr ?B"
    by (rule example_load)
  have "runCompare (example_host ?A ?B) '''' '''' [''a.json'', ''b.json'']
     = ([Comparing_backup_files, File_A ''a.json'', File_B ''b.json'', Count_A 2, Count_B 1,
         OK ''Alpha'', MISS ''Beta'' ''k3'', Comparison_complete 1 0 1 2],
        Some (ErrorfCount 1 ''key(s) missing or attributes differ''))"
    unfolding runCompare_outcome[OF disjI1[OF refl] a b]
    by (simp add: example_record_def report_def classify_def tally_def same_keys_def
        attributesEqual_def)
  with a b show ?thesis by blast
qed

theorem runCompare_first_match_counterexample:
  "example_record ''t2'' ''Alpha'' ''k1'' ''k2''
     \<in> set (filterOutMaster [example_record ''t1'' ''Renamed'' ''k1'' ''k2'',
                             example_record ''t2'' ''Alpha'' ''k1'' ''k2''])
   \<and> same_keys (example_record ''s1'' ''Alpha'' ''k1'' ''k2'')
                (example_record ''t2'' ''Alpha'' ''k1'' ''k2'')
   \<and> attributesEqual (example_record ''s1'' ''Alpha'' ''k1'' ''k2'')
                      (example_record ''t2'' ''Alpha'' ''k1'' ''k2'')
   \<and> filterOutMaster [example_record ''s1'' ''Alpha'' ''k1'' ''k2'']
       = [example_record ''s1'' ''Alpha'' ''k1'' ''k2'']
   \<and> runCompare
        (example_host [example_record ''s1'' ''Alpha'' ''k1'' ''k2'']
                      [example_record ''t1'' ''Renamed'' ''k1'' ''k2'',
                       example_record ''t2'' ''Alpha'' ''k1'' ''k2''])
        '''' '''' [''a.json'', ''b.json'']
       = ([Comparing_backup_files, File_A ''a.json'', File_B ''b.json'', Count_A 1, Count_B 2,
           DIFF ''Alpha'', Differs ''displayName'' ''Alpha'' ''Renamed'',
           Comparison_complete 0 1 0 1],
          Some (ErrorfCount 1 ''key(s) missing or attributes differ''))"
  by (simp add: runCompare_def runCompare_files_def loadBackupFile_def example_host_def
      example_record_def same_keys_def attributesEqual_def printAttributeDifferences_def)




lemma in_filterOutMaster: "sub \<in> set (filterOutMaster subs) \<longleftrightarrow> sub \<in> set subs \<and> Name sub \<noteq> ''master''"
  by (simp add: filterOutMaster_filter)

lemma classify_Matched_report:
  "classify subA subsB = Matched \<Longrightarrow> report subA subsB = [OK (DisplayName (Properties subA))]"
  by (induction subsB) (simp_all add: classify_Nil classify_Cons report_Cons split: if_splits)

lemma classify_Mismatched_report:
  "classify subA subsB = Mismatched \<Longrightarrow>
     \<exists>sub\<in>set subsB. same_keys subA sub \<and> \<not> attributesEqual subA sub
       \<and> report subA subsB
           = DIFF (DisplayName (Properties subA)) # printAttributeDifferences subA sub"
  by (induction subsB) (auto simp: classify_Nil classify_Cons report_Cons split: if_splits)

text \<open>
  C10. The comparison joins on string equality of the two keys and checks nothing else
  about them: the inner loop finds a partner for a record exactly when some record of B has
  the same two keys. So a non-master record of A whose keys are both empty is compared
  (it is classified matched or mismatched, never missing) as soon as B holds a non-master
  record whose keys are both empty: the loop over B stops with \<open>found\<close> set and has either
  printed the OK line and added one to the matched counter, or printed the DIFF line with
  the differences to a record of B with the same keys and added one to the mismatch
  counter; the missing counter stays as it was and the outer loop prints no MISS line for
  the record.
\<close>

theorem empty_keys_are_joined:
  assumes "subA \<in> set snapA" and "Name subA \<noteq> ''master''"
    and "PrimaryKey (Properties subA) = ''''" and "SecondaryKey (Properties subA) = ''''"
    and "subB \<in> set snapB" and "Name subB \<noteq> ''master''"
    and "PrimaryKey (Properties subB) = ''''" and "SecondaryKey (Properties subB) = ''''"
  shows "subA \<in> set (filterOutMaster snapA)
    \<and> (classify subA (filterOutMaster snapB) = Matched
       \<or> classify subA (filterOutMaster snapB) = Mismatched)
    \<and> fst (runCompare_inner subA (filterOutMaster snapB) st)
    \<and> missing (snd (runCompare_inner subA (filterOutMaster snapB) st)) = missing st
    \<and> MISS (DisplayName (Properties subA)) (PrimaryKey (Properties subA))
        \<notin> set (report subA (filterOutMaster snapB))
    \<and> (fst (runCompare_inner subA subsB st') \<longleftrightarrow> (\<exists>sub\<in>set subsB. same_keys subA sub))
    \<and> matched (snd (runCompare_inner subA (filterOutMaster snapB) st))
        + mismatch (snd (runCompare_inner subA (filterOutMaster snapB) st))
        = matched st + mismatch st + 1
    \<and> (runCompare_inner subA (filterOutMaster snapB) st
          = (True, st\<lparr>printed := printed st @ [OK (DisplayName (Properties subA))],
                       matched := matched st + 1\<rparr>)
       \<or> (\<exists>sub\<in>set (filterOutMaster snapB). same_keys subA sub \<and> \<not> attributesEqual subA sub
            \<and> runCompare_inner subA (filterOutMaster snapB) st
                = (True, st\<lparr>printed := printed st @ DIFF (DisplayName (Properties subA))
                                                      # printAttributeDifferences subA sub,
                             mismatch := mismatch st + 1\<rparr>)))
    \<and> runCompare_loop [subA] (filterOutMaster snapB) st
        = snd (runCompare_inner subA (filterOutMaster snapB) st)"
proof -
  let ?B = "filterOutMaster snapB"
  have inA: "subA \<in> set (filterOutMaster snapA)"
    using assms(1,2) by (simp add: in_filterOutMaster)
  have "subB \<in> set ?B"
    using assms(5,6) by (simp add: in_filterOutMaster)
  moreover have "same_keys subA subB"
    using assms(3,4,7,8) by (simp add: same_keys_def)
  ultimately have ex: "\<exists>subB\<in>set ?B. same_keys subA subB"
    by blast
  then have nm: "classify subA ?B \<noteq> Missing"
    by (simp add: classify_Missing_iff)
  then have cl: "classify subA ?B = Matched \<or> classify subA ?B = Mismatched"
    by (cases "classify subA ?B") simp_all
  have found: "fst (runCompare_inner subA ?B st)"
    using ex by (simp add: runCompare_inner_found)
  have miss: "missing (snd (runCompare_inner subA ?B st)) = missing st"
    using cl by (auto simp: runCompare_inner_state)
  have nomiss: "MISS (DisplayName (Properties subA)) (PrimaryKey (Properties subA)) \<notin> set (report subA ?B)"
    using nm
    by (auto simp: classify_def report_def printAttributeDifferences_def Let_def
        split: option.splits if_splits)
  have count: "matched (snd (runCompare_inner subA ?B st)) + mismatch (snd (runCompare_inner subA ?B st))
      = matched st + mismatch st + 1"
    using cl by (auto simp: runCompare_inner_state)
  have pair: "runCompare_inner subA ?B st
      = (True, snd (runCompare_inner subA ?B st))"
    using found by (cases "runCompare_inner subA ?B st") simp
  have line: "runCompare_inner subA ?B st
          = (True, st\<lparr>printed := printed st @ [OK (DisplayName (Properties subA))],
                       matched := matched st + 1\<rparr>)
       \<or> (\<exists>sub\<in>set ?B. same_keys subA sub \<and> \<not> attributesEqual subA sub
            \<and> runCompare_inner subA ?B st
                = (True, st\<lparr>printed := printed st @ DIFF (DisplayName (Properties subA))
                                                      # printAttributeDifferences subA sub,
                             mismatch := mismatch st + 1\<rparr>))"
    using cl
  proof
    assume m: "classify subA ?B = Matched"
    have "snd (runCompare_inner subA ?B st)
        = st\<lparr>printed := printed st @ [OK (DisplayName (Properties subA))],
              matched := matched st + 1\<rparr>"
      by (simp add: runCompare_inner_state m classify_Matched_report[OF m])
    with pair show ?thesis by simp
  next
    assume m: "classify subA ?B = Mismatched"
    from classify_Mismatched_report[OF m] obtain sub where sub: "sub \<in> set ?B"
      "same_keys subA sub" "\<not> attributesEqual subA sub"
      "report subA ?B = DIFF (DisplayName (Properties subA)) # printAttributeDifferences subA sub"
      by blast
    have "snd (runCompare_inner subA ?B st)
        = st\<lparr>printed := printed st @ DIFF (DisplayName (Properties subA))
                                       # printAttributeDifferences subA sub,
              mismatch := mismatch st + 1\<rparr>"
      by (simp add: runCompare_inner_state m sub(4))
    with pair have "runCompare_inner subA ?B st
        = (True, st\<lparr>printed := printed st @ DIFF (DisplayName (Properties subA))
                                              # printAttributeDifferences subA sub,
                     mismatch := mismatch st + 1\<rparr>)"
      by simp
    with sub(1-3) show ?thesis by blast
  qed
  have outer: "runCompare_loop [subA] ?B st = snd (runCompare_inner subA ?B st)"
    using found by (simp add: case_prod_beta)
  from inA cl found miss nomiss runCompare_inner_found[of subA subsB st'] count line outer
  show ?thesis by blast
qed

theorem empty_keys_are_joined_witness:
  "classify (example_record ''s1'' ''Alpha'' '''' '''')
     (filterOutMaster [example_record ''master'' ''Built-in'' ''n1'' ''n2'',
                       example_record ''t1'' ''Other'' '''' ''''])
     = Mismatched
   \<and> fst (runCompare_inner (example_record ''s1'' ''Alpha'' '''' '''')
       (filterOutMaster [example_record ''master'' ''Built-in'' ''n1'' ''n2'',
                         example_record ''t1'' ''Other'' '''' ''''])
       \<lparr>printed = [], matched = 0, missing = 0, mismatch = 0\<rparr>)
   \<and> matched (snd (runCompare_inner (example_record ''s1'' ''Alpha'' '''' '''')
       (filterOutMaster [example_record ''master'' ''Built-in'' ''n1'' ''n2'',
                         example_record ''t1'' ''Other'' '''' ''''])
       \<lparr>printed = [], matched = 0, missing = 0, mismatch = 0\<rparr>))
     + mismatch (snd (runCompare_inner (example_record ''s1'' ''Alpha'' '''' '''')
       (filterOutMaster [example_record ''master'' ''Built-in'' ''n1'' ''n2'',
                         example_record ''t1'' ''Other'' '''' ''''])
       \<lparr>printed = [], matched = 0, missing = 0, mismatch = 0\<rparr>))
     = 1
   \<and> runCompare_loop [example_record ''s1'' ''Alpha'' '''' '''']
       (filterOutMaster [example_record ''master'' ''Built-in'' ''n1'' ''n2'',
                         example_record ''t1'' ''Other'' '''' ''''])
       \<lparr>printed = [], matched = 0, missing = 0, mismatch = 0\<rparr>
     = \<lparr>printed = [DIFF ''Alpha'', Differs ''displayName'' ''Alpha'' ''Other''],
        matched = 0, missing = 0, mismatch = 1\<rparr>"
proof -
  let ?a = "example_record ''s1'' ''Alpha'' '''' ''''"
  let ?b = "example_record ''t1'' ''Other'' '''' ''''"
  let ?A = "[?a]"
  let ?B = "[example_record ''master'' ''Built-in'' ''n1'' ''n2'', ?b]"
  let ?st = "\<lparr>printed = [], matched = 0, missing = 0, mismatch = 0\<rparr>"
  have h: "?a \<in> set ?A" "Name ?a \<noteq> ''master''"
    "PrimaryKey (Properties ?a) = ''''" "SecondaryKey (Properties ?a) = ''''"
    "?b \<in> set ?B" "Name ?b \<noteq> ''master''"
    "PrimaryKey (Properties ?b) = ''''" "SecondaryKey (Properties ?b) = ''''"
    by (simp_all add: example_record_def)
  note joined = empty_keys_are_joined[OF h, of ?st "[]" ?st]
  from joined have cl: "classify ?a (filterOutMaster ?B) = Matched
      \<or> classify ?a (filterOutMaster ?B) = Mismatched"
    and found: "fst (runCompare_inner ?a (filterOutMaster ?B) ?st)"
    and count: "matched (snd (runCompare_inner ?a (filterOutMaster ?B) ?st))
        + mismatch (snd (runCompare_inner ?a (filterOutMaster ?B) ?st))
        = matched ?st + mismatch ?st + 1"
    and outer: "runCompare_loop [?a] (filterOutMaster ?B) ?st
        = snd (runCompare_inner ?a (filterOutMaster ?B) ?st)"
    by blast+
  have "classify ?a (filterOutMaster ?B) \<noteq> Matched"
    by (simp add: classify_def example_record_def same_keys_def attributesEqual_def)
  with cl have c1: "classify ?a (filterOutMaster ?B) = Mismatched" by blast
  from count have c3: "matched (snd (runCompare_inner ?a (filterOutMaster ?B) ?st))
        + mismatch (snd (runCompare_inner ?a (filterOutMaster ?B) ?st)) = 1"
    by simp
  have "snd (runCompare_inner ?a (filterOutMaster ?B) ?st)
      = \<lparr>printed = [DIFF ''Alpha'', Differs ''displayName'' ''Alpha'' ''Other''],
         matched = 0, missing = 0, mismatch = 1\<rparr>"
    by (simp add: example_record_def attributesEqual_def printAttributeDifferences_def)
  with outer have c4: "runCompare_loop [?a] (filterOutMaster ?B) ?st
      = \<lparr>printed = [DIFF ''Alpha'', Differs ''displayName'' ''Alpha'' ''Other''],
         matched = 0, missing = 0, mismatch = 1\<rparr>"
    by simp
  from c1 found c3 c4 show ?thesis by blast
qed

section \<open>Properties of the delete command\<close>

lemma DeleteSubscription_trace:
  "trace (snd (DeleteSubscription sdk c sid w))
     = trace w @ [Call_Delete (resourceGroup c) (apimName c) sid]"
  by (simp add: DeleteSubscription_def Let_def split: prod.splits option.splits)

lemma runDelete_loop_skip:
  assumes "\<not> deleteAll fl" and "Name sub = ''master''"
  shows "runDelete_loop sdk fl c (sub # subs) t w
           = runDelete_loop sdk fl c subs (t\<lparr>skipped := skipped t + 1\<rparr>) w"
  using assms by simp

lemma runDelete_loop_dry:
  assumes "deleteAll fl \<or> Name sub \<noteq> ''master''" and "deleteDryRun fl"
  shows "runDelete_loop sdk fl c (sub # subs) t w
           = runDelete_loop sdk fl c subs (t\<lparr>deleted := deleted t + 1\<rparr>) w"
  using assms by auto

lemma runDelete_loop_call:
  assumes "deleteAll fl \<or> Name sub \<noteq> ''master''" and "\<not> deleteDryRun fl"
    and "DeleteSubscription sdk c (Name sub) w = (res, w1)"
  shows "runDelete_loop sdk fl c (sub # subs) t w
           = runDelete_loop sdk fl c subs
               (case res of None \<Rightarrow> t\<lparr>deleted := deleted t + 1\<rparr>
                          | Some err \<Rightarrow> t\<lparr>delete_failed := delete_failed t + 1\<rparr>) w1"
  using assms by (cases res) auto

lemma runDelete_loop_effect:
  assumes "runDelete_loop sdk fl c subs t w = (t', w')"
  shows "trace w' = trace w @
           (if deleteDryRun fl then []
            else map (\<lambda>sub. Call_Delete (resourceGroup c) (apimName c) (Name sub))
                   (filter (\<lambda>sub. deleteAll fl \<or> Name sub \<noteq> ''master'') subs))
    \<and> skipped t' = skipped t
        + int (length (filter (\<lambda>sub. \<not> deleteAll fl \<and> Name sub = ''master'') subs))
    \<and> deleted t' + delete_failed t' = deleted t + delete_failed t
        + int (length (filter (\<lambda>sub. deleteAll fl \<or> Name sub \<noteq> ''master'') subs))"
  using assms
proof (induction subs arbitrary: t w)
  case Nil
  then show ?case by simp
next
  case (Cons sub subs)
  show ?case
  proof (cases "\<not> deleteAll fl \<and> Name sub = ''master''")
    case True
    then have "\<not> deleteAll fl" and "Name sub = ''master''" by simp_all
    from Cons.prems[unfolded runDelete_loop_skip[OF this]]
    have "runDelete_loop sdk fl c subs (t\<lparr>skipped := skipped t + 1\<rparr>) w = (t', w')" .
    from Cons.IH[OF this] True show ?thesis by simp
  next
    case False
    then have keep: "deleteAll fl \<or> Name sub \<noteq> ''master''" by blast
    show ?thesis
    proof (cases "deleteDryRun fl")
      case True
      from Cons.prems[unfolded runDelete_loop_dry[OF keep True]]
      have "runDelete_loop sdk fl c subs (t\<lparr>deleted := deleted t + 1\<rparr>) w = (t', w')" .
      from Cons.IH[OF this] True keep show ?thesis by simp
    next
      case False
      obtain res w1 where d: "DeleteSubscription sdk c (Name sub) w = (res, w1)"
        by (cases "DeleteSubscription sdk c (Name sub) w")
      have tr: "trace w1 = trace w @ [Call_Delete (resourceGroup c) (apimName c) (Name sub)]"
        using DeleteSubscription_trace[of sdk c "Name sub" w] d by simp
      show ?thesis
      proof (cases res)
        case None
        with Cons.prems[unfolded runDelete_loop_call[OF keep False d]]
        have "runDelete_loop sdk fl c subs (t\<lparr>deleted := deleted t + 1\<rparr>) w1 = (t', w')"
          by simp
        from Cons.IH[OF this] False keep tr show ?thesis by simp
      next
        case (Some err)
        with Cons.prems[unfolded runDelete_loop_call[OF keep False d]]
        have "runDelete_loop sdk fl c subs (t\<lparr>delete_failed := delete_failed t + 1\<rparr>) w1 = (t', w')"
          by simp
        from Cons.IH[OF this] False keep tr show ?thesis by simp
      qed
    qed
  qed
qed

text \<open>
  C8. Take a run of the delete command that authenticates and lists a non-empty sequence of
  records. The delete calls it issues are, in order, one per listed record that is not
  skipped, and none in a dry run. With \<open>--all\<close> unset every record named \<open>master\<close> is
  skipped: no delete call is issued for it, it is counted in the skipped tally, and the
  deleted and failed tallies together count the other records. With \<open>--all\<close> set nothing
  is skipped and a record named \<open>master\<close> gets its delete call like any other.
\<close>

theorem runDelete_master:
  assumes "NewClient sdk (deleteSubscription fl) (deleteResourceGroup fl) (deleteAPIMName fl)
             = Inr client"
    and "ListSubscriptions sdk client (deleteProductID fl) w = (Inr (Inr subs), w1)"
    and "subs \<noteq> []"
  shows "\<exists>t e w2. runDelete sdk fl w = (Inr (Some t, e), w2)
    \<and> trace w2 = trace w1 @
         (if deleteDryRun fl then []
          else map (\<lambda>sub. Call_Delete (resourceGroup client) (apimName client) (Name sub))
                 (filter (\<lambda>sub. deleteAll fl \<or> Name sub \<noteq> ''master'') subs))
    \<and> (\<not> deleteAll fl \<longrightarrow>
          Call_Delete (resourceGroup client) (apimName client) ''master''
            \<notin> set (drop (length (trace w1)) (trace w2))
          \<and> skipped t = int (length (filter (\<lambda>sub. Name sub = ''master'') subs))
          \<and> deleted t + delete_failed t
              = int (length (filter (\<lambda>sub. Name sub \<noteq> ''master'') subs)))
    \<and> (deleteAll fl \<longrightarrow>
          skipped t = 0 \<and> deleted t + delete_failed t = int (length subs)
          \<and> (\<not> deleteDryRun fl \<longrightarrow>
                trace w2 = trace w1 @
                  map (\<lambda>sub. Call_Delete (resourceGroup client) (apimName client) (Name sub)) subs))"
proof -
  let ?t0 = "\<lparr>deleted = 0, skipped = 0, delete_failed = 0\<rparr>"
  obtain t w2 where loop: "runDelete_loop sdk fl client subs ?t0 w1 = (t, w2)"
    by (cases "runDelete_loop sdk fl client subs ?t0 w1")
  have run: "runDelete sdk fl w =
      (Inr (Some t, if delete_failed t > 0
                    then Some (ErrorfCount (delete_failed t) ''subscription(s) failed to delete'')
                    else None), w2)"
    using assms loop by (simp add: runDelete_def)
  note eff = runDelete_loop_effect[OF loop]
  have tr: "trace w2 = trace w1 @
         (if deleteDryRun fl then []
          else map (\<lambda>sub. Call_Delete (resourceGroup client) (apimName client) (Name sub))
                 (filter (\<lambda>sub. deleteAll fl \<or> Name sub \<noteq> ''master'') subs))"
    using eff by simp
  have sk: "skipped t = int (length (filter (\<lambda>sub. \<not> deleteAll fl \<and> Name sub = ''master'') subs))"
    using eff by simp
  have dl: "deleted t + delete_failed t
      = int (length (filter (\<lambda>sub. deleteAll fl \<or> Name sub \<noteq> ''master'') subs))"
    using eff by simp
  have unset: "Call_Delete (resourceGroup client) (apimName client) ''master''
            \<notin> set (drop (length (trace w1)) (trace w2))
          \<and> skipped t = int (length (filter (\<lambda>sub. Name sub = ''master'') subs))
          \<and> deleted t + delete_failed t
              = int (length (filter (\<lambda>sub. Name sub \<noteq> ''master'') subs))"
    if "\<not> deleteAll fl"
    using that tr sk dl by auto
  have set: "skipped t = 0 \<and> deleted t + delete_failed t = int (length subs)
          \<and> (\<not> deleteDryRun fl \<longrightarrow>
                trace w2 = trace w1 @
                  map (\<lambda>sub. Call_Delete (resourceGroup client) (apimName client) (Name sub)) subs)"
    if "deleteAll fl"
    using that tr sk dl by simp
  from run tr unset set show ?thesis by blast
qed

lemma example_NewClient:
  "NewClient (example_sdk pages ns nd) ''sub-1'' ''g'' ''i'' = Inr example_client"
  by (simp add: NewClient_def example_sdk_def example_client_def)

lemma example_listing:
  "ListSubscriptions
     (example_sdk [Inr [Some (example_contract ''master'' ''Built-in''),
                        None,
                        Some (example_contract ''s1'' ''Alpha'')]] [] nd)
     example_client '''' \<lparr>remote = 0, trace = []\<rparr>
   = (Inr (Inr [example_record ''master'' ''Built-in'' ''master-pk'' ''master-sk'',
                example_record ''s1'' ''Alpha'' ''s1-pk'' ''s1-sk'']),
      \<lparr>remote = 2, trace = [Call_ListSecrets ''g'' ''i'' ''master'',
                             Call_ListSecrets ''g'' ''i'' ''s1'']\<rparr>)"
  by (simp add: ListSubscriptions_def pager_def example_sdk_def example_client_def
      example_contract_def example_properties_def example_record_def project_def with_keys_def
      deref_def format_date_def)

theorem runDelete_master_witness:
  "runDelete
     (example_sdk [Inr [Some (example_contract ''master'' ''Built-in''),
                        None,
                        Some (example_contract ''s1'' ''Alpha'')]] [] [])
     (example_delete_flags False False) \<lparr>remote = 0, trace = []\<rparr>
   = (Inr (Some \<lparr>deleted = 1, skipped = 1, delete_failed = 0\<rparr>, None),
      \<lparr>remote = 3, trace = [Call_ListSecrets ''g'' ''i'' ''master'',
                             Call_ListSecrets ''g'' ''i'' ''s1'',
                             Call_Delete ''g'' ''i'' ''s1'']\<rparr>)
   \<and> runDelete
     (example_sdk [Inr [Some (example_contract ''master'' ''Built-in''),
                        None,
                        Some (example_contract ''s1'' ''Alpha'')]] [] [])
     (example_delete_flags False True) \<lparr>remote = 0, trace = []\<rparr>
   = (Inr (Some \<lparr>deleted = 2, skipped = 0, delete_failed = 0\<rparr>, None),
      \<lparr>remote = 4, trace = [Call_ListSecrets ''g'' ''i'' ''master'',
                             Call_ListSecrets ''g'' ''i'' ''s1'',
                             Call_Delete ''g'' ''i'' ''master'',
                             Call_Delete ''g'' ''i'' ''s1'']\<rparr>)"
proof -
  let ?sdk = "example_sdk [Inr [Some (example_contract ''master'' ''Built-in''),
                                None,
                                Some (example_contract ''s1'' ''Alpha'')]] [] []"
  let ?subs = "[example_record ''master'' ''Built-in'' ''master-pk'' ''master-sk'',
                example_record ''s1'' ''Alpha'' ''s1-pk'' ''s1-sk'']"
  let ?w0 = "\<lparr>remote = 0::nat, trace = []\<rparr>"
  let ?w1 = "\<lparr>remote = 2::nat, trace = [Call_ListSecrets ''g'' ''i'' ''master'',
                                         Call_ListSecrets ''g'' ''i'' ''s1'']\<rparr>"
  have names: "map Name ?subs = [''master'', ''s1'']"
    by (simp add: example_record_def)
  have nonempty: "?subs \<noteq> []" by simp
  have client: "resourceGroup example_client = ''g''" "apimName example_client = ''i''"
    by (simp_all add: example_client_def)
  have unset: "runDelete ?sdk (example_delete_flags False False) ?w0
   = (Inr (Some \<lparr>deleted = 1, skipped = 1, delete_failed = 0\<rparr>, None),
      \<lparr>remote = 3, trace = [Call_ListSecrets ''g'' ''i'' ''master'',
                             Call_ListSecrets ''g'' ''i'' ''s1'',
                             Call_Delete ''g'' ''i'' ''s1'']\<rparr>)"
  proof -
    let ?fl = "example_delete_flags False False"
    have fl: "deleteSubscription ?fl = ''sub-1''" "deleteResourceGroup ?fl = ''g''"
      "deleteAPIMName ?fl = ''i''" "deleteProductID ?fl = ''''"
      "\<not> deleteDryRun ?fl" "\<not> deleteAll ?fl"
      by (simp_all add: example_delete_flags_def)
    have h1: "NewClient ?sdk (deleteSubscription ?fl) (deleteResourceGroup ?fl) (deleteAPIMName ?fl)
        = Inr example_client"
      unfolding fl by (rule example_NewClient)
    have h2: "ListSubscriptions ?sdk example_client (deleteProductID ?fl) ?w0 = (Inr (Inr ?subs), ?w1)"
      unfolding fl by (rule example_listing)
    from runDelete_master[OF h1 h2 nonempty]
    obtain t e w2 where run: "runDelete ?sdk ?fl ?w0 = (Inr (Some t, e), w2)"
      and tr: "trace w2 = trace ?w1 @
         map (\<lambda>sub. Call_Delete ''g'' ''i'' (Name sub)) (filter (\<lambda>sub. Name sub \<noteq> ''master'') ?subs)"
      and sk: "skipped t = int (length (filter (\<lambda>sub. Name sub = ''master'') ?subs))"
      and dl: "deleted t + delete_failed t = int (length (filter (\<lambda>sub. Name sub \<noteq> ''master'') ?subs))"
      using fl client by auto
    have "runDelete_loop ?sdk ?fl example_client ?subs
            \<lparr>deleted = 0, skipped = 0, delete_failed = 0\<rparr> ?w1
      = (\<lparr>deleted = 1, skipped = 1, delete_failed = 0\<rparr>,
         \<lparr>remote = 3, trace = [Call_ListSecrets ''g'' ''i'' ''master'',
                                Call_ListSecrets ''g'' ''i'' ''s1'',
                                Call_Delete ''g'' ''i'' ''s1'']\<rparr>)"
      by (simp add: fl DeleteSubscription_def example_sdk_def example_client_def example_record_def Let_def)
    then have "runDelete ?sdk ?fl ?w0
      = (Inr (Some \<lparr>deleted = 1, skipped = 1, delete_failed = 0\<rparr>, None),
         \<lparr>remote = 3, trace = [Call_ListSecrets ''g'' ''i'' ''master'',
                                Call_ListSecrets ''g'' ''i'' ''s1'',
                                Call_Delete ''g'' ''i'' ''s1'']\<rparr>)"
      by (simp add: runDelete_def h1 h2 del: runDelete_loop.simps)
    with run tr sk dl have "runDelete ?sdk ?fl ?w0
      = (Inr (Some \<lparr>deleted = 1, skipped = 1, delete_failed = 0\<rparr>, None),
         \<lparr>remote = 3, trace = [Call_ListSecrets ''g'' ''i'' ''master'',
                                Call_ListSecrets ''g'' ''i'' ''s1'',
                                Call_Delete ''g'' ''i'' ''s1'']\<rparr>)"
      by simp
    then show ?thesis .
  qed
  have all: "runDelete ?sdk (example_delete_flags False True) ?w0
   = (Inr (Some \<lparr>deleted = 2, skipped = 0, delete_failed = 0\<rparr>, None),
      \<lparr>remote = 4, trace = [Call_ListSecrets ''g'' ''i'' ''master'',
                             Call_ListSecrets ''g'' ''i'' ''s1'',
                             Call_Delete ''g'' ''i'' ''master'',
                             Call_Delete ''g'' ''i'' ''s1'']\<rparr>)"
  proof -
    let ?fl = "example_delete_flags False True"
    have fl: "deleteSubscription ?fl = ''sub-1''" "deleteResourceGroup ?fl = ''g''"
      "deleteAPIMName ?fl = ''i''" "deleteProductID ?fl = ''''"
      "\<not> deleteDryRun ?fl" "deleteAll ?fl"
      by (simp_all add: example_delete_flags_def)
    have h1: "NewClient ?sdk (deleteSubscription ?fl) (deleteResourceGroup ?fl) (deleteAPIMName ?fl)
        = Inr example_client"
      unfolding fl by (rule example_NewClient)
    have h2: "ListSubscriptions ?sdk example_client (deleteProductID ?fl) ?w0 = (Inr (Inr ?subs), ?w1)"
      unfolding fl by (rule example_listing)
    from runDelete_master[OF h1 h2 nonempty]
    obtain t e w2 where run: "runDelete ?sdk ?fl ?w0 = (Inr (Some t, e), w2)"
      and tr: "trace w2 = trace ?w1 @ map (\<lambda>sub. Call_Delete ''g'' ''i'' (Name sub)) ?subs"
      and sk: "skipped t = 0"
      using fl client by auto
    have "runDelete_loop ?sdk ?fl example_client ?subs
            \<lparr>deleted = 0, skipped = 0, delete_failed = 0\<rparr> ?w1
      = (\<lparr>deleted = 2, skipped = 0, delete_failed = 0\<rparr>,
         \<lparr>remote = 4, trace = [Call_ListSecrets ''g'' ''i'' ''master'',
                                Call_ListSecrets ''g'' ''i'' ''s1'',
                                Call_Delete ''g'' ''i'' ''master'',
                                Call_Delete ''g'' ''i'' ''s1'']\<rparr>)"
      by (simp add: fl DeleteSubscription_def example_sdk_def example_client_def example_record_def Let_def)
    then have "runDelete ?sdk ?fl ?w0
      = (Inr (Some \<lparr>deleted = 2, skipped = 0, delete_failed = 0\<rparr>, None),
         \<lparr>remote = 4, trace = [Call_ListSecrets ''g'' ''i'' ''master'',
                                Call_ListSecrets ''g'' ''i'' ''s1'',
                                Call_Delete ''g'' ''i'' ''master'',
                                Call_Delete ''g'' ''i'' ''s1'']\<rparr>)"
      by (simp add: runDelete_def h1 h2 del: runDelete_loop.simps)
    with run tr sk show ?thesis
      by simp
  qed
  from unset all show ?thesis by (rule conjI)
qed

section \<open>Properties of the listing\<close>

lemma ListSubscriptions_page_append:
  "ListSubscriptions_page sdk c (xs @ ys) results w =
     (case ListSubscriptions_page sdk c xs results w of
        (Inr (Inr results'), w') \<Rightarrow> ListSubscriptions_page sdk c ys results' w'
      | (stopped, w') \<Rightarrow> (stopped, w'))"
proof (induction sdk c xs results w rule: ListSubscriptions_page.induct)
  case (1 sdk c results w)
  show ?case by simp
next
  case (2 sdk c subs results w)
  then show ?case by simp
next
  case (3 sdk c sub subs results w)
  show ?case
  proof (cases "c_Properties sub")
    case None
    with 3(1) show ?thesis by simp
  next
    case (Some props)
    show ?thesis
    proof (cases "p_State props")
      case None
      with Some show ?thesis by simp
    next
      case state: (Some state)
      obtain answer r' where ls:
        "ListSecrets sdk (resourceGroup c) (apimName c) (deref (c_Name sub)) (remote w) = (answer, r')"
        by (cases "ListSecrets sdk (resourceGroup c) (apimName c) (deref (c_Name sub)) (remote w)")
      show ?thesis
      proof (cases answer)
        case (Inl err)
        with Some state ls show ?thesis by simp
      next
        case (Inr secrets)
        with Some state ls 3(2)[OF Some state ls[symmetric] refl Inr] show ?thesis
          by simp
      qed
    qed
  qed
qed

lemma ListSubscriptions_pages_single:
  "ListSubscriptions_pages sdk c [Inr v] results w =
     (case ListSubscriptions_page sdk c v results w of
        (Inr (Inr results'), w') \<Rightarrow> (Inr (Inr results'), w')
      | (stopped, w') \<Rightarrow> (stopped, w'))"
  by (simp split: prod.splits sum.splits)

lemma ListSubscriptions_pages_split:
  assumes "ListSubscriptions_pages sdk c (before @ [Inr subs1]) results0 w = (Inr (Inr results), w1)"
  shows "ListSubscriptions_pages sdk c (before @ Inr (subs1 @ rest) # after) results0 w =
     (case ListSubscriptions_page sdk c rest results w1 of
        (Inr (Inr results'), w') \<Rightarrow> ListSubscriptions_pages sdk c after results' w'
      | (stopped, w') \<Rightarrow> (stopped, w'))"
  using assms
proof (induction before arbitrary: results0 w)
  case Nil
  then have "ListSubscriptions_page sdk c subs1 results0 w = (Inr (Inr results), w1)"
    by (auto simp: ListSubscriptions_pages_single split: prod.splits sum.splits)
  then show ?case
    by (simp add: ListSubscriptions_page_append)
next
  case (Cons p before)
  show ?case
  proof (cases p)
    case (Inl err)
    with Cons.prems show ?thesis by simp
  next
    case (Inr v)
    obtain res w' where pg: "ListSubscriptions_page sdk c v results0 w = (res, w')"
      by (cases "ListSubscriptions_page sdk c v results0 w")
    show ?thesis
    proof (cases res)
      case (Inl p)
      with Inr pg Cons.prems show ?thesis by simp
    next
      case outer: (Inr answer)
      show ?thesis
      proof (cases answer)
        case (Inl err)
        with outer Inr pg Cons.prems show ?thesis by simp
      next
        case inner: (Inr results')
        with outer Inr pg Cons.prems
        have "ListSubscriptions_pages sdk c (before @ [Inr subs1]) results' w' = (Inr (Inr results), w1)"
          by simp
        from Cons.IH[OF this] inner outer Inr pg show ?thesis by simp
      qed
    qed
  qed
qed

text \<open>
  C3 (as amended). When the secret fetch fails for a record, the listing stops at that
  record: \<open>ListSubscriptions\<close> returns the error "failed to get secrets for subscription
  <name>" around the cause and no records at all, also not the ones it had completed, and
  it issues no further call. Here the records before the failing one, on the earlier
  pages and on its own page, have been processed without error, giving \<open>results\<close> and
  the state \<open>w1\<close>.
\<close>

theorem ListSubscriptions_secret_failure:
  assumes "pager sdk c productID (remote w) = before @ Inr (subs1 @ Some sub # subs2) # after"
    and "ListSubscriptions_pages sdk c (before @ [Inr subs1]) [] w = (Inr (Inr results), w1)"
    and "c_Properties sub = Some props" and "p_State props = Some state"
    and "ListSecrets sdk (resourceGroup c) (apimName c) (deref (c_Name sub)) (remote w1)
           = (Inl err, r2)"
  shows "ListSubscriptions sdk c productID w =
     (Inr (Inl (Wrap (''failed to get secrets for subscription '' @ deref (c_Name sub)) err)),
      \<lparr>remote = r2,
       trace = trace w1 @ [Call_ListSecrets (resourceGroup c) (apimName c) (deref (c_Name sub))]\<rparr>)"
proof -
  have "ListSubscriptions_page sdk c (Some sub # subs2) results w1 =
     (Inr (Inl (Wrap (''failed to get secrets for subscription '' @ deref (c_Name sub)) err)),
      \<lparr>remote = r2,
       trace = trace w1 @ [Call_ListSecrets (resourceGroup c) (apimName c) (deref (c_Name sub))]\<rparr>)"
    using assms(3,4,5) by simp
  then show ?thesis
    unfolding ListSubscriptions_def assms(1)
      ListSubscriptions_pages_split[OF assms(2), of "Some sub # subs2" after]
    by simp
qed

theorem ListSubscriptions_secret_failure_counterexample:
  "ListSubscriptions
     (example_sdk [Inr [Some (example_contract ''s1'' ''Alpha''),
                        Some (example_contract ''s2'' ''Beta'')]] [''s1''] [])
     example_client '''' \<lparr>remote = 0, trace = []\<rparr>
   = (Inr (Inl (Wrap ''failed to get secrets for subscription s1'' (External ''secrets unavailable''))),
      \<lparr>remote = 1, trace = [Call_ListSecrets ''g'' ''i'' ''s1'']\<rparr>)"
  by (simp add: ListSubscriptions_def pager_def example_sdk_def example_client_def
      example_contract_def example_properties_def deref_def)


theorem ListSubscriptions_secret_failure_witness:
  "ListSubscriptions
     (example_sdk [Inr [Some (example_contract ''s1'' ''Alpha''),
                        Some (example_contract ''s2'' ''Beta''),
                        Some (example_contract ''s3'' ''Gamma'')]] [''s2''] [])
     example_client '''' \<lparr>remote = 0, trace = []\<rparr>
   = (Inr (Inl (Wrap ''failed to get secrets for subscription s2'' (External ''secrets unavailable''))),
      \<lparr>remote = 2, trace = [Call_ListSecrets ''g'' ''i'' ''s1'', Call_ListSecrets ''g'' ''i'' ''s2'']\<rparr>)"
proof -
  let ?sdk = "example_sdk [Inr [Some (example_contract ''s1'' ''Alpha''),
                                Some (example_contract ''s2'' ''Beta''),
                                Some (example_contract ''s3'' ''Gamma'')]] [''s2''] []"
  let ?w0 = "\<lparr>remote = 0::nat, trace = []\<rparr>"
  let ?w1 = "\<lparr>remote = 1::nat, trace = [Call_ListSecrets ''g'' ''i'' ''s1'']\<rparr>"
  have h1: "pager ?sdk example_client '''' (remote ?w0)
      = [] @ Inr ([Some (example_contract ''s1'' ''Alpha'')]
                  @ Some (example_contract ''s2'' ''Beta'')
                  # [Some (example_contract ''s3'' ''Gamma'')]) # []"
    by (simp add: pager_def example_sdk_def)
  have h2: "ListSubscriptions_pages ?sdk example_client
              ([] @ [Inr [Some (example_contract ''s1'' ''Alpha'')]]) [] ?w0
      = (Inr (Inr [example_record ''s1'' ''Alpha'' ''s1-pk'' ''s1-sk'']), ?w1)"
    by (simp add: example_sdk_def example_client_def example_contract_def example_properties_def
        example_record_def project_def with_keys_def deref_def format_date_def)
  have h3: "c_Properties (example_contract ''s2'' ''Beta'') = Some (example_properties ''Beta'')"
    by (simp add: example_contract_def)
  have h4: "p_State (example_properties ''Beta'') = Some ''active''"
    by (simp add: example_properties_def)
  have h5: "ListSecrets ?sdk (resourceGroup example_client) (apimName example_client)
              (deref (c_Name (example_contract ''s2'' ''Beta''))) (remote ?w1)
      = (Inl (External ''secrets unavailable''), 2)"
    by (simp add: example_sdk_def example_contract_def deref_def)
  from ListSubscriptions_secret_failure[OF h1 h2 h3 h4 h5]
  show ?thesis
    by (simp add: example_client_def example_contract_def deref_def)
qed

section \<open>Properties of the restore command\<close>

lemma buildScopeFromSuffix_products:
  "buildScopeFromSuffix sub rg apim (''products/'' @ pid) = buildScope sub rg apim pid"
  by (simp add: buildScopeFromSuffix_def buildScope_def)

text \<open>
  C9 (as amended). Let a record's scope be \<open><prefix>/service/<instance>/products/<id>\<close>
  where \<open><id>\<close> is not empty and has no slash and \<open><instance>\<close> is a single path segment
  other than \<open>service\<close>; the prefix is arbitrary. Then the generic variant extracts the
  suffix \<open>products/<id>\<close>, the product variant extracts \<open><id>\<close>, both build the same
  target scope for the same target subscription id, resource group and instance name, and
  the two restore loops do the same on that record.
\<close>

theorem restore_variants_agree:
  assumes "CHR ''/'' \<notin> set pid" and "pid \<noteq> ''''"
    and "CHR ''/'' \<notin> set inst" and "inst \<noteq> ''service''"
    and "Scope (Properties sub) = pre @ ''/service/'' @ inst @ ''/products/'' @ pid"
  shows "extractScopeSuffix (Scope (Properties sub)) = Inr (''products/'' @ pid)
    \<and> extractProductID (Scope (Properties sub)) = Inr pid
    \<and> buildScopeFromSuffix azureSubID rg apim (''products/'' @ pid) = buildScope azureSubID rg apim pid
    \<and> runRestore_loop sdk fl client azureSubID [sub] t w
        = runRestore_product_loop sdk fl client azureSubID [sub] t w"
proof -
  have sfx: "extractScopeSuffix (Scope (Properties sub)) = Inr (''products/'' @ pid)"
    unfolding assms(5) using assms(1-4) by (rule extractScopeSuffix_product_scope)
  have "extractProductID ((pre @ ''/service/'' @ inst) @ ''/products/'' @ pid) = Inr pid"
    using assms(1) by (rule extractProductID_last)
  then have prod: "extractProductID (Scope (Properties sub)) = Inr pid"
    by (simp add: assms(5))
  have ne: "(''products/'' @ pid = '''') = False" "(pid = '''') = False"
    using assms(2) by simp_all
  have "runRestore_loop sdk fl client azureSubID [sub] t w
        = runRestore_product_loop sdk fl client azureSubID [sub] t w"
    unfolding runRestore_loop.simps runRestore_product_loop.simps sfx prod Let_def sum.case
      buildScopeFromSuffix_products ne if_False
    by (rule refl)
  with sfx prod show ?thesis
    by (simp only: buildScopeFromSuffix_products simp_thms)
qed


theorem restore_variants_agree_witness:
  "extractScopeSuffix (Scope (Properties (example_record ''s1'' ''Alpha'' ''k1'' ''k2'')))
     = Inr ''products/p1''
   \<and> extractProductID (Scope (Properties (example_record ''s1'' ''Alpha'' ''k1'' ''k2'')))
     = Inr ''p1''
   \<and> buildScopeFromSuffix ''sub-2'' ''g2'' ''i2'' ''products/p1''
     = buildScope ''sub-2'' ''g2'' ''i2'' ''p1''"
proof -
  have h1: "CHR ''/'' \<notin> set ''p1''" by simp
  have h2: "''p1'' \<noteq> ''''" by simp
  have h3: "CHR ''/'' \<notin> set ''i''" by simp
  have h4: "''i'' \<noteq> ''service''" by simp
  have h5: "Scope (Properties (example_record ''s1'' ''Alpha'' ''k1'' ''k2''))
      = ''/subscriptions/s/resourceGroups/g/providers/Microsoft.ApiManagement''
        @ ''/service/'' @ ''i'' @ ''/products/'' @ ''p1''"
    by (simp add: example_record_def)
  note agree = restore_variants_agree[OF h1 h2 h3 h4 h5, of "''sub-2''" "''g2''" "''i2''"]
  from agree[THEN conjunct1]
  have a: "extractScopeSuffix (Scope (Properties (example_record ''s1'' ''Alpha'' ''k1'' ''k2'')))
     = Inr ''products/p1''"
    by simp
  from agree[THEN conjunct2, THEN conjunct1]
  have b: "extractProductID (Scope (Properties (example_record ''s1'' ''Alpha'' ''k1'' ''k2'')))
     = Inr ''p1''" .
  from agree[THEN conjunct2, THEN conjunct2, THEN conjunct1]
  have c: "buildScopeFromSuffix ''sub-2'' ''g2'' ''i2'' ''products/p1''
     = buildScope ''sub-2'' ''g2'' ''i2'' ''p1''"
    by simp
  from a b c show ?thesis by blast
qed

theorem restore_variants_agree_counterexample:
  "''/subscriptions/s/providers/Microsoft.ApiManagement/service/a/b/products/p1''
     = ''/subscriptions/s/providers/Microsoft.ApiManagement'' @ ''/service/'' @ ''a/b''
       @ ''/products/'' @ ''p1''
   \<and> \<not> sublist ''/service/'' ''/subscriptions/s/providers/Microsoft.ApiManagement''
   \<and> \<not> sublist ''/products/'' ''/subscriptions/s/providers/Microsoft.ApiManagement''
   \<and> extractScopeSuffix ''/subscriptions/s/providers/Microsoft.ApiManagement/service/a/b/products/p1''
       = Inr ''b/products/p1''
   \<and> extractProductID ''/subscriptions/s/providers/Microsoft.ApiManagement/service/a/b/products/p1''
       = Inr ''p1''
   \<and> buildScopeFromSuffix ''sub-2'' ''g2'' ''i2'' ''b/products/p1''
       \<noteq> buildScope ''sub-2'' ''g2'' ''i2'' ''p1''
   \<and> extractScopeSuffix ''/subscriptions/s/providers/Microsoft.ApiManagement/service/service/products/p1''
       = Inr ''p1''
   \<and> extractProductID ''/subscriptions/s/providers/Microsoft.ApiManagement/service/service/products/p1''
       = Inr ''p1''
   \<and> buildScopeFromSuffix ''sub-2'' ''g2'' ''i2'' ''p1''
       \<noteq> buildScope ''sub-2'' ''g2'' ''i2'' ''p1''"
  by (simp add: extractScopeSuffix_def extractProductID_def buildScopeFromSuffix_def buildScope_def
      LastIndex_def Index_def occurs_at_def slice_from_def TrimRight_def sublist_Cons_right)

text \<open>
  C1. The restore command has no test for the name \<open>master\<close> in either variant. A snapshot
  that holds only the built-in record, with its instance-level scope, is restored by the
  generic variant like any record: the create call is issued for \<open>master\<close> and the record
  is counted as succeeded. The product variant counts that record as failed, since its
  scope has no product id, and issues the create call for a \<open>master\<close> record with a
  product scope.
\<close>

theorem runRestore_master_is_restored:
  "runRestore (example_sdk [] [] [])
     (example_restore_host
        [with_Scope ''/subscriptions/s/resourceGroups/g/providers/Microsoft.ApiManagement/service/i/''
           (example_record ''master'' ''Built-in'' ''m1'' ''m2'')])
     (example_restore_flags False) \<lparr>remote = 0, trace = []\<rparr>
   = (Inr (Some \<lparr>restored = 1, restore_failed = 0\<rparr>, None),
      \<lparr>remote = 2,
       trace = [Call_CreateOrUpdate ''g2'' ''i2'' ''master''
                  \<lparr>cp_Scope = Some ''/subscriptions/sub-2/resourceGroups/g2/providers/Microsoft.ApiManagement/service/i2'',
                   cp_DisplayName = Some ''Built-in'',
                   cp_PrimaryKey = Some ''m1'',
                   cp_SecondaryKey = Some ''m2'',
                   cp_OwnerID = None,
                   cp_AllowTracing = Some False,
                   cp_State = Some ''active''\<rparr>,
                Call_ListSecrets ''g2'' ''i2'' ''master'']\<rparr>)
   \<and> runRestore_product (example_sdk [] [] [])
     (example_restore_host
        [with_Scope ''/subscriptions/s/resourceGroups/g/providers/Microsoft.ApiManagement/service/i/''
           (example_record ''master'' ''Built-in'' ''m1'' ''m2'')])
     (example_restore_flags False) \<lparr>remote = 0, trace = []\<rparr>
   = (Inr (Some \<lparr>restored = 0, restore_failed = 1\<rparr>,
           Some (ErrorfCount 1 ''subscription(s) failed to restore'')),
      \<lparr>remote = 0, trace = []\<rparr>)
   \<and> runRestore_product (example_sdk [] [] [])
     (example_restore_host [example_record ''master'' ''Built-in'' ''m1'' ''m2''])
     (example_restore_flags False) \<lparr>remote = 0, trace = []\<rparr>
   = (Inr (Some \<lparr>restored = 1, restore_failed = 0\<rparr>, None),
      \<lparr>remote = 2,
       trace = [Call_CreateOrUpdate ''g2'' ''i2'' ''master''
                  \<lparr>cp_Scope = Some ''/subscriptions/sub-2/resourceGroups/g2/providers/Microsoft.ApiManagement/service/i2/products/p1'',
                   cp_DisplayName = Some ''Built-in'',
                   cp_PrimaryKey = Some ''m1'',
                   cp_SecondaryKey = Some ''m2'',
                   cp_OwnerID = None,
                   cp_AllowTracing = Some False,
                   cp_State = Some ''active''\<rparr>,
                Call_ListSecrets ''g2'' ''i2'' ''master'']\<rparr>)"
  by code_simp

section \<open>Properties of the backup command\<close>

text \<open>
  C2. Neither variant of the backup command reads the error that \<open>ListSubscriptions\<close>
  returns. When the first page of the listing fails, the command goes on with the empty
  slice, writes its encoding to the snapshot file and returns without an error.
\<close>

theorem runBackup_ignores_listing_error:
  "ListSubscriptions (example_sdk [Inl (External ''network down'')] [] []) example_client ''''
     \<lparr>remote = 0, trace = []\<rparr>
   = (Inr (Inl (Wrap ''failed to list subscriptions'' (External ''network down''))),
      \<lparr>remote = 0, trace = []\<rparr>)
   \<and> runBackup (example_sdk [Inl (External ''network down'')] [] []) example_files
     (example_backup_flags '''') \<lparr>remote = 0, trace = []\<rparr>
   = (Inr None,
      \<lparr>remote = 0,
       trace = [Call_MkdirAll ''backup/g/i'',
                Call_WriteFile ''backup/g/i/subscriptions.json'' ''null'']\<rparr>)
   \<and> runBackup (example_sdk [Inl (External ''network down'')] [] []) example_files
     (example_backup_flags ''out/snap.json'') \<lparr>remote = 0, trace = []\<rparr>
   = (Inr None,
      \<lparr>remote = 0,
       trace = [Call_MkdirAll ''out'',
                Call_WriteFile ''out/snap.json'' ''null'']\<rparr>)
   \<and> runBackup_dir (example_sdk [Inl (External ''network down'')] [] []) example_files
     (example_backup_flags '''') \<lparr>remote = 0, trace = []\<rparr>
   = (Inr None,
      \<lparr>remote = 0,
       trace = [Call_MkdirAll ''backup/g/i'',
                Call_WriteFile ''backup/g/i/subscriptions.json'' ''null'']\<rparr>)"
  by code_simp

end
